theory Spec2Isabelle
  imports Complex_Main
begin

section \<open>TR-ZERO: the agent-based carbon market simulation\<close>

text \<open>
  A shallow embedding of \<^verbatim>\<open>src/ajan_tabanli_simulasyon.py\<close>. Every agent class is a
  record, every method a function from the state before the call to the state after it.
  Python floats are idealised as real numbers: rounding and NaN are not modelled. The
  one float operation of the program that raises on overflow, the power in the market
  operator's price rule, is modelled with its exception. Python ints that only ever meet
  floats in arithmetic are real too, the year and the investment durations stay
  integers. Random draws are explicit arguments of the functions that consume them.
\<close>

subsection \<open>Errors\<close>

datatype py_error = ZeroDivisionError | OverflowError

text \<open>
  Python's \<^verbatim>\<open>a / b\<close> on floats: raises on a zero divisor. (A quotient too large for
  a float is the float infinity, not an exception.)
\<close>

definition py_truediv :: "real \<Rightarrow> real \<Rightarrow> py_error + real" where
  "py_truediv a b = (if b = 0 then Inl ZeroDivisionError else Inr (a / b))"

text \<open>
  The least real that rounds to the float infinity: the largest finite float is
  \<open>2 ^ 1024 - 2 ^ 971\<close> and half a unit in its last place is \<open>2 ^ 970\<close>. A real at or
  above this bound stands for the infinity.
\<close>

definition FLOAT_SONSUZ :: real where
  "FLOAT_SONSUZ = 2 ^ 1024 - 2 ^ 970"

text \<open>
  Python's \<^verbatim>\<open>x ** 2\<close> on a float: the power of a finite float whose result is too
  large for a float raises \<^verbatim>\<open>OverflowError\<close>; the power of the infinity is the
  infinity.
\<close>

definition py_kare :: "real \<Rightarrow> py_error + real" where
  "py_kare x =
     (if x < FLOAT_SONSUZ \<and> FLOAT_SONSUZ \<le> x ^ 2 then Inl OverflowError else Inr (x ^ 2))"

subsection \<open>Constants: \<^verbatim>\<open>ETS_PARAMS\<close>\<close>

definition PILOT_BASLANGIC :: int where "PILOT_BASLANGIC = 2026"
definition TAM_UYGULAMA :: int where "TAM_UYGULAMA = 2028"
definition TABAN_FIYAT :: real where "TABAN_FIYAT = 20"
definition TAVAN_FIYAT :: real where "TAVAN_FIYAT = 150"
definition CEZA_MIKTARI :: real where "CEZA_MIKTARI = 100"

subsection \<open>Sector profiles: \<^verbatim>\<open>SEKTOR_PROFILLERI\<close>\<close>

text \<open>One abatement measure of a catalog: \<^verbatim>\<open>{"mac": .., "potansiyel": .., "sure": ..}\<close>.\<close>

record onlem =
  mac :: real
  potansiyel :: real
  sure :: int

datatype duyarlilik_sinifi = Vergi | Tesvik

text \<open>
  A profile dictionary. The keys \<^verbatim>\<open>maliyet_limit\<close>, \<^verbatim>\<open>yatirim_bedeli\<close> and
  \<^verbatim>\<open>duyarlilik\<close> are also attributes of a facility, so the profile's fields carry the
  prefix \<open>profil_\<close>. The catalog \<^verbatim>\<open>mac_onlemler\<close> is a dict iterated in insertion order:
  an association list.
\<close>

record sektor_profili =
  baz_emisyon :: real
  ihracat_orani :: real
  skdm_kapsam :: bool
  profil_maliyet_limit :: real
  profil_yatirim_bedeli :: real
  profil_duyarlilik :: duyarlilik_sinifi
  mac_onlemler :: "(string \<times> onlem) list"

definition Enerji_profili :: sektor_profili where
  "Enerji_profili = \<lparr> baz_emisyon = 1, ihracat_orani = 5 / 100, skdm_kapsam = False,
     profil_maliyet_limit = 90, profil_yatirim_bedeli = 200, profil_duyarlilik = Vergi,
     mac_onlemler =
       [(''enerji_verimliligi'', \<lparr> mac = - 15, potansiyel = 8 / 100, sure = 2 \<rparr>),
        (''yakit_degisimi'', \<lparr> mac = 35, potansiyel = 20 / 100, sure = 3 \<rparr>),
        (''yenilenebilir'', \<lparr> mac = 50, potansiyel = 35 / 100, sure = 5 \<rparr>)] \<rparr>"

definition Sanayi_profili :: sektor_profili where
  "Sanayi_profili = \<lparr> baz_emisyon = 75 / 100, ihracat_orani = 40 / 100, skdm_kapsam = True,
     profil_maliyet_limit = 110, profil_yatirim_bedeli = 250, profil_duyarlilik = Vergi,
     mac_onlemler =
       [(''enerji_verimliligi'', \<lparr> mac = - 5, potansiyel = 10 / 100, sure = 2 \<rparr>),
        (''proses_iyilestirme'', \<lparr> mac = 25, potansiyel = 15 / 100, sure = 3 \<rparr>),
        (''teknoloji_degisimi'', \<lparr> mac = 60, potansiyel = 30 / 100, sure = 6 \<rparr>)] \<rparr>"

definition Tarim_profili :: sektor_profili where
  "Tarim_profili = \<lparr> baz_emisyon = 3 / 10, ihracat_orani = 20 / 100, skdm_kapsam = False,
     profil_maliyet_limit = 999, profil_yatirim_bedeli = 300, profil_duyarlilik = Tesvik,
     mac_onlemler =
       [(''gubre_optimizasyonu'', \<lparr> mac = 10, potansiyel = 15 / 100, sure = 1 \<rparr>),
        (''metan_yakalama'', \<lparr> mac = 40, potansiyel = 25 / 100, sure = 5 \<rparr>)] \<rparr>"

text \<open>\<^verbatim>\<open>SEKTOR_PROFILLERI.get(sektor, SEKTOR_PROFILLERI["Sanayi"])\<close>\<close>

definition SEKTOR_PROFILLERI :: "string \<Rightarrow> sektor_profili option" where
  "SEKTOR_PROFILLERI s =
     (if s = ''Enerji'' then Some Enerji_profili
      else if s = ''Sanayi'' then Some Sanayi_profili
      else if s = ''Tarim'' then Some Tarim_profili
      else None)"

definition profil_getir :: "string \<Rightarrow> sektor_profili" where
  "profil_getir s = (case SEKTOR_PROFILLERI s of Some p \<Rightarrow> p | None \<Rightarrow> Sanayi_profili)"

subsection \<open>The shared model state read by the agents\<close>

text \<open>
  The attributes of \<^verbatim>\<open>TurkiyeETSModel\<close> that the agents' steps read or write. The
  agent roster is passed beside it.
\<close>

record model_durumu =
  yil :: int
  karbon_fiyati :: real
  ab_skdm_fiyat :: real
  tesvik_miktari :: real
  yenilenebilir_kapasite :: real

definition EMISYON_FAKTORU_TR :: real where "EMISYON_FAKTORU_TR = 442 / 1000"

subsection \<open>Agent states\<close>

datatype durum_t = Aktif | Donusum | Temiz | Kapali

datatype tesis_tipi = Tesis | IhracatciTesis

datatype karar_t = yatirim | kapat | bekle

text \<open>
  \<^verbatim>\<open>EndustriyelTesis\<close> and its subclass \<^verbatim>\<open>IhracatciAjani\<close>: one record, told apart by
  \<open>ajan_tipi\<close>; the three subclass attributes are the last fields. The attribute
  \<^verbatim>\<open>_yatirim_onlemi_kaydet\<close> does not exist until \<^verbatim>\<open>_karar_ver\<close> creates it: \<open>None\<close>
  is the absent attribute.
\<close>

record tesis =
  ajan_tipi :: tesis_tipi
  sektor :: string
  city :: string
  profil :: sektor_profili
  emisyon :: real
  baslangic_emisyon :: real
  ihracatci :: bool
  durum :: durum_t
  yatirim_durumu :: "string option"
  kalan_yatirim_suresi :: int
  emisyon_azalma_potansiyeli :: real
  maliyet_limit :: real
  yatirim_bedeli :: real
  duyarlilik :: duyarlilik_sinifi
  ucretsiz_tahsisat :: real
  izin_bankasi :: real
  net_emisyon :: real
  ceza_durumu :: bool
  ceza_miktari :: real
  yatirim_onlemi_kaydet :: "(string \<times> onlem) option"
  ihracat_payi :: real
  cbam_maliyeti :: real
  rekabet_gucu_indeksi :: real

record piyasa_operatoru =
  cap :: real
  azalma_orani :: real
  piyasa_fiyati :: real
  fiyat_gecmisi :: "real list"
  toplam_gelir :: real

record mrv_ajani =
  denetim_olasiligi :: real
  mrv_ceza_miktari :: real
  toplam_denetim :: int
  toplam_ceza :: real
  uyumsuz_tesis_sayisi :: int

datatype gelir_grubu_t = dusuk | orta | yuksek

record hanehalki =
  hane_city :: string
  gelir_grubu :: gelir_grubu_t
  tuketim :: real
  hane_emisyon :: real
  hane_baslangic_emisyon :: real
  hane_durum :: durum_t
  elastikiyet :: real

record proje_gelistirici =
  sermaye :: real
  risk_primi :: real
  toplam_kapasite :: real

text \<open>The roster \<^verbatim>\<open>model.agents\<close>: every agent class is one constructor.\<close>

datatype ajan =
    PiyasaOperatoruAjan piyasa_operatoru
  | MRVAjan mrv_ajani
  | TesisAjan tesis
  | HanehalkiAjan hanehalki
  | ProjeGelistiriciAjan proje_gelistirici

subsection \<open>\<^verbatim>\<open>PiyasaOperatoru\<close>\<close>

text \<open>
  \<^verbatim>\<open>_toplam_emisyon_hesapla\<close>: the emission of every agent whose type tag is
  \<^verbatim>\<open>"Tesis"\<close> or \<^verbatim>\<open>"IhracatciTesis"\<close> and whose status is not \<^verbatim>\<open>"Kapali"\<close>.
\<close>

fun toplam_emisyon_hesapla :: "ajan list \<Rightarrow> real" where
  "toplam_emisyon_hesapla [] = 0"
| "toplam_emisyon_hesapla (TesisAjan f # as) =
     (if durum f \<noteq> Kapali then emisyon f + toplam_emisyon_hesapla as
      else toplam_emisyon_hesapla as)"
| "toplam_emisyon_hesapla (_ # as) = toplam_emisyon_hesapla as"

text \<open>
  The price rule of \<^verbatim>\<open>PiyasaOperatoru.step\<close>. \<^verbatim>\<open>oran ** 2\<close> is the float power,
  which can raise; \<^verbatim>\<open>oran ** 0.5\<close>, taken only of a ratio that is at most 1 and
  positive, is the square root and cannot. The clamp is applied to the price only when
  the power has returned.
\<close>

definition fiyat_belirle :: "real \<Rightarrow> py_error + real" where
  "fiyat_belirle arz_talep_orani =
     (case (if arz_talep_orani > 1
            then (case py_kare arz_talep_orani of
                    Inl e \<Rightarrow> Inl e
                  | Inr kare \<Rightarrow> Inr (TABAN_FIYAT * kare))
            else Inr (TABAN_FIYAT * sqrt arz_talep_orani)) of
        Inl e \<Rightarrow> Inl e
      | Inr fiyat \<Rightarrow> Inr (max TABAN_FIYAT (min TAVAN_FIYAT fiyat)))"

text \<open>
  \<^verbatim>\<open>PiyasaOperatoru.step\<close>. The result is the exception the call ends with, if any,
  together with the operator and the model as the call leaves them: an exception in the
  price rule comes after the cap has been reduced and before the price, the price
  history and the revenue are written.
\<close>

definition PiyasaOperatoru_step ::
  "model_durumu \<Rightarrow> ajan list \<Rightarrow> piyasa_operatoru
     \<Rightarrow> py_error option \<times> piyasa_operatoru \<times> model_durumu"
where
  "PiyasaOperatoru_step m agents po =
     (let po1 = (if yil m \<ge> PILOT_BASLANGIC
                 then po\<lparr> cap := cap po * (1 - azalma_orani po) \<rparr> else po);
          toplam_emisyon = toplam_emisyon_hesapla agents;
          fiyat_sonucu =
            (if yil m \<ge> PILOT_BASLANGIC \<and> cap po1 > 0 \<and> toplam_emisyon > 0
             then (case py_truediv toplam_emisyon (cap po1) of
                     Inl e \<Rightarrow> Inl e
                   | Inr arz_talep_orani \<Rightarrow> fiyat_belirle arz_talep_orani)
             else Inr 0)
      in case fiyat_sonucu of
           Inl e \<Rightarrow> (Some e, po1, m)
         | Inr fiyat \<Rightarrow>
             (let po2 = po1\<lparr> piyasa_fiyati := fiyat,
                             fiyat_gecmisi := fiyat_gecmisi po1 @ [fiyat] \<rparr>;
                  m1 = m\<lparr> karbon_fiyati := fiyat \<rparr>;
                  po3 = (if yil m \<ge> TAM_UYGULAMA \<and> piyasa_fiyati po2 > 0
                         then po2\<lparr> toplam_gelir :=
                                toplam_gelir po2 + cap po2 * (3 / 10) * piyasa_fiyati po2 \<rparr>
                         else po2)
              in (None, po3, m1)))"

subsection \<open>\<^verbatim>\<open>EndustriyelTesis\<close>\<close>

text \<open>
  \<^verbatim>\<open>EndustriyelTesis.__init__\<close>. The draw \<open>u\<close> of \<^verbatim>\<open>np.random.uniform(0.7, 1.3)\<close>,
  the draw \<open>r\<close> of \<^verbatim>\<open>random.random()\<close> and the regional coefficient are arguments. The
  three attributes that only the subclass has are filled with the subclass's initial
  values.
\<close>

definition EndustriyelTesis_init :: "string \<Rightarrow> string \<Rightarrow> real \<Rightarrow> real \<Rightarrow> real \<Rightarrow> tesis" where
  "EndustriyelTesis_init sektor0 city0 il_katsayi u r =
     (let p = profil_getir sektor0;
          e = baz_emisyon p * u * il_katsayi
      in \<lparr> ajan_tipi = Tesis, sektor = sektor0, city = city0, profil = p,
           emisyon = e, baslangic_emisyon = e,
           ihracatci = (r < ihracat_orani p),
           durum = Aktif, yatirim_durumu = None, kalan_yatirim_suresi = 0,
           emisyon_azalma_potansiyeli = 0,
           maliyet_limit = profil_maliyet_limit p,
           yatirim_bedeli = profil_yatirim_bedeli p,
           duyarlilik = profil_duyarlilik p,
           ucretsiz_tahsisat = 0, izin_bankasi = 0, net_emisyon = 0,
           ceza_durumu = False, ceza_miktari = 0,
           yatirim_onlemi_kaydet = None,
           ihracat_payi = ihracat_orani p, cbam_maliyeti = 0, rekabet_gucu_indeksi = 1 \<rparr>)"

text \<open>Step 1 of \<^verbatim>\<open>EndustriyelTesis.step\<close>: the effective carbon price.\<close>

definition efektif_fiyat_hesapla :: "model_durumu \<Rightarrow> tesis \<Rightarrow> real" where
  "efektif_fiyat_hesapla m f =
     (if ihracatci f \<and> skdm_kapsam (profil f)
      then max (karbon_fiyati m) (ab_skdm_fiyat m)
      else karbon_fiyati m)"

text \<open>Step 2 of \<^verbatim>\<open>EndustriyelTesis.step\<close>: free allocation and banking.\<close>

definition tahsisat_hesapla :: "model_durumu \<Rightarrow> tesis \<Rightarrow> tesis" where
  "tahsisat_hesapla m f =
     (if yil m \<ge> PILOT_BASLANGIC then
        (let ucretsiz_oran = (if yil m < TAM_UYGULAMA then 1 else 7 / 10);
             f1 = f\<lparr> ucretsiz_tahsisat := baslangic_emisyon f * ucretsiz_oran \<rparr>;
             fazla_tahsisat = ucretsiz_tahsisat f1 - emisyon f1
         in if fazla_tahsisat > 0
            then f1\<lparr> izin_bankasi := izin_bankasi f1 + fazla_tahsisat, net_emisyon := 0 \<rparr>
            else (let eksik = \<bar>fazla_tahsisat\<bar>;
                      bankadan_kullan = min eksik (izin_bankasi f1)
                  in f1\<lparr> izin_bankasi := izin_bankasi f1 - bankadan_kullan,
                         net_emisyon := eksik - bankadan_kullan \<rparr>))
      else f\<lparr> net_emisyon := 0 \<rparr>)"

text \<open>
  The net present value that \<^verbatim>\<open>_karar_ver\<close> computes for one measure: the inner loop
  \<^verbatim>\<open>for t in range(1, ekonomik_omur + 1)\<close> with \<^verbatim>\<open>r = 0.08\<close> and \<^verbatim>\<open>ekonomik_omur = 10\<close>.
\<close>

definition npv_hesapla :: "real \<Rightarrow> real \<Rightarrow> onlem \<Rightarrow> real" where
  "npv_hesapla emis efektif_fiyat ol =
     (let yillik_azaltim = emis * potansiyel ol;
          yillik_tasarruf = yillik_azaltim * efektif_fiyat * 1000000;
          yatirim_maliyeti = (if mac ol > 0 then yillik_azaltim * mac ol * 1000000 else 0)
      in foldl (\<lambda>npv t. npv + yillik_tasarruf / ((1 + 8 / 100) ^ t))
               (- yatirim_maliyeti) [1 ..< 10 + 1])"

text \<open>
  The loop of \<^verbatim>\<open>_karar_ver\<close> over \<^verbatim>\<open>mac_onlemler.items()\<close>; the accumulator is the pair
  \<^verbatim>\<open>(en_iyi_npv, en_iyi_onlem)\<close>.
\<close>

fun onlem_dongusu ::
  "real \<Rightarrow> real \<Rightarrow> (string \<times> onlem) list \<Rightarrow> real \<times> (string \<times> onlem) option
     \<Rightarrow> real \<times> (string \<times> onlem) option"
where
  "onlem_dongusu emis efektif_fiyat [] acc = acc"
| "onlem_dongusu emis efektif_fiyat ((onlem_adi, ol) # kalan) (en_iyi_npv, en_iyi_onlem) =
     (if mac ol \<ge> efektif_fiyat
      then onlem_dongusu emis efektif_fiyat kalan (en_iyi_npv, en_iyi_onlem)
      else (let npv = npv_hesapla emis efektif_fiyat ol
            in if npv > en_iyi_npv
               then onlem_dongusu emis efektif_fiyat kalan (npv, Some (onlem_adi, ol))
               else onlem_dongusu emis efektif_fiyat kalan (en_iyi_npv, en_iyi_onlem)))"

text \<open>
  \<^verbatim>\<open>_karar_ver\<close>: the decision and the facility, which the investment branch changes
  (it stores the chosen measure).
\<close>

definition karar_ver :: "model_durumu \<Rightarrow> tesis \<Rightarrow> real \<Rightarrow> karar_t \<times> tesis" where
  "karar_ver m f efektif_fiyat =
     (if duyarlilik f = Tesvik then
        (if tesvik_miktari m \<ge> yatirim_bedeli f * (6 / 10) * 1000
         then (yatirim, f) else (bekle, f))
      else if ceza_durumu f then (yatirim, f)
      else
        (case onlem_dongusu (emisyon f) efektif_fiyat (mac_onlemler (profil f)) (- 9999, None) of
           (en_iyi_npv, en_iyi_onlem) \<Rightarrow>
             if en_iyi_npv > 0
             then (yatirim, f\<lparr> yatirim_onlemi_kaydet := en_iyi_onlem \<rparr>)
             else if net_emisyon f > 0 \<and> net_emisyon f * efektif_fiyat > maliyet_limit f
             then (kapat, f)
             else (bekle, f)))"

text \<open>
  \<^verbatim>\<open>_yatirim_baslat\<close>: the stored measure if there is one, else the first measure of
  the catalog below the price, else the generic improvement.
\<close>

definition yatirim_baslat :: "tesis \<Rightarrow> real \<Rightarrow> tesis" where
  "yatirim_baslat f fiyat =
     (let secim = (case yatirim_onlemi_kaydet f of
                     Some k \<Rightarrow> Some k
                   | None \<Rightarrow> find (\<lambda>(adi, ol). mac ol < fiyat) (mac_onlemler (profil f)))
      in case secim of
           Some (onlem_adi, ol) \<Rightarrow>
             f\<lparr> yatirim_durumu := Some onlem_adi,
                kalan_yatirim_suresi := sure ol,
                emisyon_azalma_potansiyeli := potansiyel ol,
                durum := Donusum \<rparr>
         | None \<Rightarrow>
             f\<lparr> yatirim_durumu := Some ''genel_iyilestirme'',
                kalan_yatirim_suresi := 3,
                emisyon_azalma_potansiyeli := 20 / 100,
                durum := Donusum \<rparr>)"

text \<open>Step 3 of \<^verbatim>\<open>EndustriyelTesis.step\<close>: an investment under way counts down.\<close>

definition yatirim_ilerlet :: "tesis \<Rightarrow> tesis" where
  "yatirim_ilerlet f =
     (let f1 = f\<lparr> kalan_yatirim_suresi := kalan_yatirim_suresi f - 1 \<rparr>
      in if kalan_yatirim_suresi f1 = 0
         then f1\<lparr> emisyon := emisyon f1 * (1 - emisyon_azalma_potansiyeli f1),
                  durum := Temiz, ceza_durumu := False \<rparr>
         else f1)"

text \<open>\<^verbatim>\<open>EndustriyelTesis.step\<close>\<close>

definition EndustriyelTesis_step :: "model_durumu \<Rightarrow> tesis \<Rightarrow> tesis" where
  "EndustriyelTesis_step m f =
     (if durum f = Kapali then f
      else
        (let efektif_fiyat = efektif_fiyat_hesapla m f;
             f1 = tahsisat_hesapla m f
         in if kalan_yatirim_suresi f1 > 0 then yatirim_ilerlet f1
            else if durum f1 = Aktif then
              (case karar_ver m f1 efektif_fiyat of
                 (yatirim, f2) \<Rightarrow> yatirim_baslat f2 efektif_fiyat
               | (kapat, f2) \<Rightarrow> f2\<lparr> durum := Kapali, emisyon := 0 \<rparr>
               | (bekle, f2) \<Rightarrow> f2)
            else f1))"

subsection \<open>\<^verbatim>\<open>IhracatciAjani\<close>\<close>

definition IhracatciAjani_init :: "string \<Rightarrow> string \<Rightarrow> real \<Rightarrow> real \<Rightarrow> real \<Rightarrow> tesis" where
  "IhracatciAjani_init sektor0 city0 il_katsayi u r =
     (let f = EndustriyelTesis_init sektor0 city0 il_katsayi u r
      in f\<lparr> ajan_tipi := IhracatciTesis, ihracat_payi := ihracat_orani (profil f),
            cbam_maliyeti := 0, rekabet_gucu_indeksi := 1 \<rparr>)"

text \<open>\<^verbatim>\<open>_rekabet_gucu_hesapla\<close>, with \<^verbatim>\<open>maliyet_esik = 50\<close>.\<close>

definition rekabet_gucu_hesapla :: "tesis \<Rightarrow> tesis" where
  "rekabet_gucu_hesapla f =
     (if cbam_maliyeti f > 0
      then f\<lparr> rekabet_gucu_indeksi := max (3 / 10) (1 - (cbam_maliyeti f / 50) * (1 / 10)) \<rparr>
      else f\<lparr> rekabet_gucu_indeksi := 1 \<rparr>)"

text \<open>
  The border-cost block of \<^verbatim>\<open>IhracatciAjani.step\<close>: the CBAM cost, net of the
  domestic carbon cost, and the competitiveness index.
\<close>

definition cbam_maliyeti_hesapla :: "model_durumu \<Rightarrow> tesis \<Rightarrow> tesis" where
  "cbam_maliyeti_hesapla m f =
     (if ihracatci f \<and> skdm_kapsam (profil f) then
        (let g = f\<lparr> cbam_maliyeti := emisyon f * ab_skdm_fiyat m \<rparr>;
             g1 = (if karbon_fiyati m > 0
                   then (let dusilebilir_miktar =
                               min (cbam_maliyeti g) (emisyon g * karbon_fiyati m)
                         in g\<lparr> cbam_maliyeti := cbam_maliyeti g - dusilebilir_miktar \<rparr>)
                   else g)
         in rekabet_gucu_hesapla g1)
      else f\<lparr> cbam_maliyeti := 0 \<rparr>)"

text \<open>\<^verbatim>\<open>IhracatciAjani.step\<close>: the border cost, then the step of the base class.\<close>

definition IhracatciAjani_step :: "model_durumu \<Rightarrow> tesis \<Rightarrow> tesis" where
  "IhracatciAjani_step m f =
     (if durum f = Kapali then f
      else EndustriyelTesis_step m (cbam_maliyeti_hesapla m f))"

text \<open>The step the scheduler calls on a facility: dispatch on the class.\<close>

definition tesis_step :: "model_durumu \<Rightarrow> tesis \<Rightarrow> tesis" where
  "tesis_step m f =
     (case ajan_tipi f of
        Tesis \<Rightarrow> EndustriyelTesis_step m f
      | IhracatciTesis \<Rightarrow> IhracatciAjani_step m f)"

subsection \<open>\<^verbatim>\<open>MRVAjani\<close>\<close>

definition MRVAjani_init :: mrv_ajani where
  "MRVAjani_init = \<lparr> denetim_olasiligi = 2 / 10, mrv_ceza_miktari = CEZA_MIKTARI,
     toplam_denetim = 0, toplam_ceza = 0, uyumsuz_tesis_sayisi = 0 \<rparr>"

text \<open>
  The body of the loop of \<^verbatim>\<open>MRVAjani.step\<close> for one facility of the roster. \<open>r1\<close> and
  \<open>r2\<close> are the two draws of \<^verbatim>\<open>random.random()\<close>, \<open>u\<close> the draw of
  \<^verbatim>\<open>np.random.uniform(0.05, 0.15)\<close>.
\<close>

definition MRV_denetle :: "mrv_ajani \<Rightarrow> tesis \<Rightarrow> real \<Rightarrow> real \<Rightarrow> real \<Rightarrow> mrv_ajani \<times> tesis" where
  "MRV_denetle mrv f r1 r2 u =
     (if durum f \<noteq> Kapali then
        (if r1 < denetim_olasiligi mrv then
           (let mrv1 = mrv\<lparr> toplam_denetim := toplam_denetim mrv + 1 \<rparr>
            in if r2 < 5 / 100 then
                 (let mrv2 = mrv1\<lparr> uyumsuz_tesis_sayisi := uyumsuz_tesis_sayisi mrv1 + 1 \<rparr>;
                      eksik_emisyon = emisyon f * u;
                      ceza = eksik_emisyon * mrv_ceza_miktari mrv2;
                      mrv3 = mrv2\<lparr> toplam_ceza := toplam_ceza mrv2 + ceza \<rparr>
                  in (mrv3, f\<lparr> ceza_durumu := True, ceza_miktari := ceza \<rparr>))
               else (mrv1, f))
         else (mrv, f))
      else (mrv, f))"

subsection \<open>\<^verbatim>\<open>Hanehalki\<close>\<close>

text \<open>
  \<^verbatim>\<open>Hanehalki.__init__\<close>; the income bracket and the consumption drawn from the
  bracket's range are arguments.
\<close>

definition Hanehalki_init :: "string \<Rightarrow> gelir_grubu_t \<Rightarrow> real \<Rightarrow> hanehalki" where
  "Hanehalki_init city0 grup tuketim0 =
     \<lparr> hane_city = city0, gelir_grubu = grup, tuketim = tuketim0,
       hane_emisyon = (tuketim0 / 1000) * EMISYON_FAKTORU_TR,
       hane_baslangic_emisyon = (tuketim0 / 1000) * EMISYON_FAKTORU_TR,
       hane_durum = Aktif,
       elastikiyet = (case grup of dusuk \<Rightarrow> - (6 / 10) | orta \<Rightarrow> - (4 / 10)
                                 | yuksek \<Rightarrow> - (25 / 100)) \<rparr>"

text \<open>
  \<^verbatim>\<open>Hanehalki.step\<close>. Over the floats the sum \<^verbatim>\<open>1 + elastikiyet * fiyat_orani\<close>
  absorbs small differences of the price, so two prices that are close can give the same
  emission where the real numbers give two; every operation of the formula is monotone
  in both.
\<close>

definition Hanehalki_step :: "model_durumu \<Rightarrow> hanehalki \<Rightarrow> hanehalki" where
  "Hanehalki_step m h =
     (if hane_durum h \<noteq> Aktif then h
      else if karbon_fiyati m > 0 then
        (let fiyat_orani = karbon_fiyati m / 100;
             fiyat_etkisi = max (1 / 2) (1 + (elastikiyet h * fiyat_orani))
         in h\<lparr> hane_emisyon := (tuketim h / 1000) * EMISYON_FAKTORU_TR * fiyat_etkisi \<rparr>)
      else h\<lparr> hane_emisyon := (tuketim h / 1000) * EMISYON_FAKTORU_TR \<rparr>)"

subsection \<open>The life of one facility\<close>

text \<open>
  Two operations of the simulation write to a facility: its own step, once per tick,
  with whatever model state the shuffled order lets it see, and the audit of the
  monitoring agent. A history is any sequence of the two, applied to a freshly
  constructed facility.
\<close>

datatype olay = Adim model_durumu | Denetim mrv_ajani real real real

fun olay_uygula :: "tesis \<Rightarrow> olay \<Rightarrow> tesis" where
  "olay_uygula f (Adim m) = tesis_step m f"
| "olay_uygula f (Denetim mrv r1 r2 u) = snd (MRV_denetle mrv f r1 r2 u)"

definition gecmis_uygula :: "tesis \<Rightarrow> olay list \<Rightarrow> tesis" where
  "gecmis_uygula f olaylar = foldl olay_uygula f olaylar"

text \<open>The constructor call for either class.\<close>

definition tesis_olustur ::
  "tesis_tipi \<Rightarrow> string \<Rightarrow> string \<Rightarrow> real \<Rightarrow> real \<Rightarrow> real \<Rightarrow> tesis"
where
  "tesis_olustur tip sektor0 city0 il_katsayi u r =
     (case tip of
        Tesis \<Rightarrow> EndustriyelTesis_init sektor0 city0 il_katsayi u r
      | IhracatciTesis \<Rightarrow> IhracatciAjani_init sektor0 city0 il_katsayi u r)"

subsection \<open>The decision rule in the words of the specification\<close>

text \<open>
  The net present value as the specification writes it, over a horizon of 10 years at
  the rate 0.08, with the emission in the unit the facility stores it in.
\<close>

definition spec_npv :: "real \<Rightarrow> real \<Rightarrow> onlem \<Rightarrow> real" where
  "spec_npv current_emission effective_price ol =
     (let annualSavings = potansiyel ol * current_emission * effective_price;
          investmentCost = (if mac ol > 0 then potansiyel ol * current_emission * mac ol else 0)
      in - investmentCost + (\<Sum>t = 1..10. annualSavings / (1 + 8 / 100) ^ t))"

text \<open>The measures considered: marginal abatement cost strictly below the price.\<close>

definition spec_uygun_onlemler :: "real \<Rightarrow> (string \<times> onlem) list \<Rightarrow> (string \<times> onlem) list" where
  "spec_uygun_onlemler effective_price catalog =
     filter (\<lambda>(adi, ol). mac ol < effective_price) catalog"

subsection \<open>Sample inputs\<close>

text \<open>Concrete states on which the theorems below are exercised.\<close>

definition ornek_model :: "int \<Rightarrow> real \<Rightarrow> model_durumu" where
  "ornek_model y fiyat = \<lparr> yil = y, karbon_fiyati = fiyat, ab_skdm_fiyat = 90,
     tesvik_miktari = 50000, yenilenebilir_kapasite = 0 \<rparr>"

definition ornek_operator :: "real \<Rightarrow> real \<Rightarrow> piyasa_operatoru" where
  "ornek_operator c a = \<lparr> cap = c, azalma_orani = a, piyasa_fiyati = TABAN_FIYAT,
     fiyat_gecmisi = [], toplam_gelir = 0 \<rparr>"

definition ornek_enerji_tesisi :: tesis where
  "ornek_enerji_tesisi = EndustriyelTesis_init ''Enerji'' ''Istanbul'' 1 1 (1 / 2)"

definition ornek_ajanlar :: "ajan list" where
  "ornek_ajanlar =
     [PiyasaOperatoruAjan (ornek_operator 80 (3 / 100)), MRVAjan MRVAjani_init,
      TesisAjan ornek_enerji_tesisi,
      TesisAjan (ornek_enerji_tesisi\<lparr> durum := Kapali, emisyon := 0 \<rparr>),
      HanehalkiAjan (Hanehalki_init ''Ankara'' orta 3000)]"

text \<open>A facility of a sector whose profile has no abatement catalog.\<close>

definition ornek_onlemsiz_tesis :: tesis where
  "ornek_onlemsiz_tesis =
     (EndustriyelTesis_init ''Enerji'' ''Zonguldak'' 3 1 (1 / 2))
       \<lparr> profil := Enerji_profili\<lparr> mac_onlemler := [] \<rparr> \<rparr>"

definition ornek_tarim_tesisi :: tesis where
  "ornek_tarim_tesisi = EndustriyelTesis_init ''Tarim'' ''Konya'' 100 1 (1 / 2)"

text \<open>
  An industrial facility of 3 Mt that is still active in the full-implementation
  period, with the allocation and the uncovered emission of its last step.
\<close>

definition ornek_sanayi_tesisi :: tesis where
  "ornek_sanayi_tesisi =
     (EndustriyelTesis_init ''Sanayi'' ''Kocaeli'' 4 1 (1 / 2))
       \<lparr> ucretsiz_tahsisat := 21 / 10, net_emisyon := 9 / 10 \<rparr>"

text \<open>The same facility with a catalog of two measures of equal value.\<close>

definition ornek_esit_tesis :: tesis where
  "ornek_esit_tesis =
     ornek_sanayi_tesisi
       \<lparr> profil := Sanayi_profili
            \<lparr> mac_onlemler :=
                [(''birinci'', \<lparr> mac = 25, potansiyel = 15 / 100, sure = 3 \<rparr>),
                 (''ikinci'', \<lparr> mac = 25, potansiyel = 15 / 100, sure = 4 \<rparr>)] \<rparr> \<rparr>"

definition ornek_hane :: hanehalki where
  "ornek_hane = Hanehalki_init ''Ankara'' dusuk 2000"

section \<open>The market operator\<close>

lemma fiyat_belirle_hata:
  "fiyat_belirle x = Inl e \<longleftrightarrow>
     e = OverflowError \<and> 1 < x \<and> x < FLOAT_SONSUZ \<and> FLOAT_SONSUZ \<le> x ^ 2"
  by (auto simp add: fiyat_belirle_def py_kare_def split: if_splits sum.splits)

lemma fiyat_belirle_aralik:
  "fiyat_belirle x = Inr v \<Longrightarrow> TABAN_FIYAT \<le> v \<and> v \<le> TAVAN_FIYAT"
  by (auto simp add: fiyat_belirle_def TABAN_FIYAT_def TAVAN_FIYAT_def
      split: if_splits sum.splits)

lemma ornek_toplam_emisyon: "toplam_emisyon_hesapla ornek_ajanlar = 1"
  by (simp add: ornek_ajanlar_def ornek_enerji_tesisi_def EndustriyelTesis_init_def Let_def
      profil_getir_def SEKTOR_PROFILLERI_def Enerji_profili_def)

text \<open>
  What a call of the operator's step can end in. It raises only \<^verbatim>\<open>OverflowError\<close>, and
  only in an active year with a positive cap and a positive total emission whose ratio is
  a finite float above 1 with a square beyond the floats; the price is then left as it
  was. When the call returns, the price is 0 in the degenerate cases and within the floor
  and the ceiling otherwise.
\<close>

lemma PiyasaOperatoru_step_sonucu:
  "\<exists>err po' m'. PiyasaOperatoru_step m agents po = (err, po', m')
     \<and> (err = None \<longrightarrow>
           karbon_fiyati m' = piyasa_fiyati po'
           \<and> (yil m < PILOT_BASLANGIC \<or> \<not> cap po' > 0 \<or> \<not> toplam_emisyon_hesapla agents > 0
                \<longrightarrow> piyasa_fiyati po' = 0)
           \<and> (\<not> (yil m < PILOT_BASLANGIC \<or> \<not> cap po' > 0
                  \<or> \<not> toplam_emisyon_hesapla agents > 0)
                \<longrightarrow> TABAN_FIYAT \<le> piyasa_fiyati po' \<and> piyasa_fiyati po' \<le> TAVAN_FIYAT))
     \<and> (err \<noteq> None \<longrightarrow>
           err = Some OverflowError
           \<and> PILOT_BASLANGIC \<le> yil m \<and> cap po' > 0 \<and> toplam_emisyon_hesapla agents > 0
           \<and> 1 < toplam_emisyon_hesapla agents / cap po'
           \<and> toplam_emisyon_hesapla agents / cap po' < FLOAT_SONSUZ
           \<and> FLOAT_SONSUZ \<le> (toplam_emisyon_hesapla agents / cap po') ^ 2
           \<and> piyasa_fiyati po' = piyasa_fiyati po \<and> m' = m)"
proof -
  let ?po1 = "if yil m \<ge> PILOT_BASLANGIC
              then po\<lparr> cap := cap po * (1 - azalma_orani po) \<rparr> else po"
  let ?t = "toplam_emisyon_hesapla agents"
  show ?thesis
  proof (cases "yil m \<ge> PILOT_BASLANGIC \<and> cap ?po1 > 0 \<and> ?t > 0")
    case False
    then show ?thesis
      by (auto simp add: PiyasaOperatoru_step_def Let_def)
  next
    case True
    show ?thesis
    proof (cases "fiyat_belirle (?t / cap ?po1)")
      case (Inl e)
      with True have "PiyasaOperatoru_step m agents po = (Some e, ?po1, m)"
        by (auto simp add: PiyasaOperatoru_step_def Let_def py_truediv_def)
      moreover have "e = OverflowError \<and> 1 < ?t / cap ?po1 \<and> ?t / cap ?po1 < FLOAT_SONSUZ
          \<and> FLOAT_SONSUZ \<le> (?t / cap ?po1) ^ 2"
        using Inl by (simp add: fiyat_belirle_hata)
      moreover have "piyasa_fiyati ?po1 = piyasa_fiyati po"
        by simp
      ultimately show ?thesis
        using True by auto
    next
      case (Inr v)
      with True have "\<exists>po'. PiyasaOperatoru_step m agents po
            = (None, po', m\<lparr> karbon_fiyati := v \<rparr>)
          \<and> piyasa_fiyati po' = v \<and> cap po' = cap ?po1"
        by (auto simp add: PiyasaOperatoru_step_def Let_def py_truediv_def)
      then show ?thesis
        using True fiyat_belirle_aralik [OF Inr] by auto
    qed
  qed
qed

text \<open>
  C2 fails on the code. With the cap \<open>2 ^ -600\<close>, the reduction rate 0 and a total
  emission of 1 Mt, the tick of 2025 leaves the price at 0; at the tick of 2026 the year
  is at the pilot start, the cap and the total emission are positive, the ratio is
  \<open>2 ^ 600\<close>, and its power raises \<^verbatim>\<open>OverflowError\<close> before the clamp is reached: the
  step ends in an exception and the price stays 0, below the floor.
\<close>

theorem piyasa_fiyati_tasma:
  "PiyasaOperatoru_step (ornek_model 2025 0) ornek_ajanlar (ornek_operator (1 / 2 ^ 600) 0)
     = (None,
        \<lparr> cap = 1 / 2 ^ 600, azalma_orani = 0, piyasa_fiyati = 0, fiyat_gecmisi = [0],
          toplam_gelir = 0 \<rparr>,
        ornek_model 2025 0)
   \<and> PiyasaOperatoru_step (ornek_model 2026 0) ornek_ajanlar
        \<lparr> cap = 1 / 2 ^ 600, azalma_orani = 0, piyasa_fiyati = 0, fiyat_gecmisi = [0],
          toplam_gelir = 0 \<rparr>
     = (Some OverflowError,
        \<lparr> cap = 1 / 2 ^ 600, azalma_orani = 0, piyasa_fiyati = 0, fiyat_gecmisi = [0],
          toplam_gelir = 0 \<rparr>,
        ornek_model 2026 0)
   \<and> \<not> yil (ornek_model 2026 0) < PILOT_BASLANGIC
   \<and> (0 :: real) < 1 / 2 ^ 600
   \<and> 0 < toplam_emisyon_hesapla ornek_ajanlar
   \<and> \<not> TABAN_FIYAT \<le> 0"
proof -
  have a: "PiyasaOperatoru_step (ornek_model 2025 0) ornek_ajanlar
        (ornek_operator (1 / 2 ^ 600) 0)
     = (None,
        \<lparr> cap = 1 / 2 ^ 600, azalma_orani = 0, piyasa_fiyati = 0, fiyat_gecmisi = [0],
          toplam_gelir = 0 \<rparr>,
        ornek_model 2025 0)"
    by (simp add: PiyasaOperatoru_step_def Let_def ornek_model_def ornek_operator_def
        PILOT_BASLANGIC_def TAM_UYGULAMA_def)
  have k: "py_kare (2 ^ 600) = Inl OverflowError"
    by (simp add: py_kare_def FLOAT_SONSUZ_def)
  then have f: "fiyat_belirle (2 ^ 600) = Inl OverflowError"
    by (simp add: fiyat_belirle_def)
  have b: "PiyasaOperatoru_step (ornek_model 2026 0) ornek_ajanlar
        \<lparr> cap = 1 / 2 ^ 600, azalma_orani = 0, piyasa_fiyati = 0, fiyat_gecmisi = [0],
          toplam_gelir = 0 \<rparr>
     = (Some OverflowError,
        \<lparr> cap = 1 / 2 ^ 600, azalma_orani = 0, piyasa_fiyati = 0, fiyat_gecmisi = [0],
          toplam_gelir = 0 \<rparr>,
        ornek_model 2026 0)"
    using f
    by (simp add: PiyasaOperatoru_step_def Let_def ornek_model_def py_truediv_def
        ornek_toplam_emisyon PILOT_BASLANGIC_def)
  have c: "\<not> yil (ornek_model 2026 0) < PILOT_BASLANGIC"
    by (simp add: ornek_model_def PILOT_BASLANGIC_def)
  have d: "(0 :: real) < 1 / 2 ^ 600"
    by simp
  have e: "0 < toplam_emisyon_hesapla ornek_ajanlar"
    by (simp add: ornek_toplam_emisyon)
  have g: "\<not> TABAN_FIYAT \<le> 0"
    by (simp add: TABAN_FIYAT_def)
  from a b c d e g show ?thesis by blast
qed

text \<open>
  C3, as stated, at a negative cap: with the reduction rate 1/2 in the year 2026 the
  operator's step takes the cap from -10 to -5, which is above -10.
\<close>

theorem cap_azalma_counterexample:
  "(0 :: real) \<le> 1 / 2 \<and> (1 / 2 :: real) \<le> 1
   \<and> PILOT_BASLANGIC \<le> yil (ornek_model 2026 0)
   \<and> PiyasaOperatoru_step (ornek_model 2026 0) ornek_ajanlar (ornek_operator (- 10) (1 / 2))
       = (None,
          \<lparr> cap = - 5, azalma_orani = 1 / 2, piyasa_fiyati = 0, fiyat_gecmisi = [0],
            toplam_gelir = 0 \<rparr>,
          ornek_model 2026 0)
   \<and> \<not> (- 5 :: real) \<le> - 10"
  by (simp add: PiyasaOperatoru_step_def Let_def ornek_model_def ornek_operator_def
      PILOT_BASLANGIC_def TAM_UYGULAMA_def)

text \<open>
  C3, amended. Provided the reduction rate lies in [0, 1] and the cap is not negative:
  in a year at or past the pilot start the operator's step multiplies the cap by
  (1 - rate), so the new cap is not negative and at most the old one; in a year before
  the pilot start the step leaves the cap unchanged (whatever the rate and the cap).
  This is the cap the call leaves behind whether it returns or raises, since the cap is
  written before the price rule runs.
\<close>

theorem cap_azalma:
  "\<exists>err po' m'. PiyasaOperatoru_step m agents po = (err, po', m')
     \<and> (PILOT_BASLANGIC \<le> yil m \<and> 0 \<le> azalma_orani po \<and> azalma_orani po \<le> 1 \<and> 0 \<le> cap po
          \<longrightarrow> cap po' = cap po * (1 - azalma_orani po) \<and> cap po' \<le> cap po \<and> 0 \<le> cap po')
     \<and> (yil m < PILOT_BASLANGIC \<longrightarrow> cap po' = cap po \<and> err = None)
     \<and> azalma_orani po' = azalma_orani po"
proof -
  have le: "cap po * (1 - azalma_orani po) \<le> cap po"
    if "0 \<le> azalma_orani po" "0 \<le> cap po"
    using that by (simp add: mult_left_le)
  let ?po1 = "if yil m \<ge> PILOT_BASLANGIC
              then po\<lparr> cap := cap po * (1 - azalma_orani po) \<rparr> else po"
  have "\<exists>err po' m'. PiyasaOperatoru_step m agents po = (err, po', m')
      \<and> cap po' = cap ?po1 \<and> azalma_orani po' = azalma_orani po
      \<and> (yil m < PILOT_BASLANGIC \<longrightarrow> err = None)"
    by (auto simp add: PiyasaOperatoru_step_def Let_def split: sum.splits)
  then obtain err po' m' where
    r: "PiyasaOperatoru_step m agents po = (err, po', m')" "cap po' = cap ?po1"
       "azalma_orani po' = azalma_orani po" "yil m < PILOT_BASLANGIC \<longrightarrow> err = None"
    by blast
  have "PILOT_BASLANGIC \<le> yil m \<and> 0 \<le> azalma_orani po \<and> azalma_orani po \<le> 1 \<and> 0 \<le> cap po
          \<longrightarrow> cap po' = cap po * (1 - azalma_orani po) \<and> cap po' \<le> cap po \<and> 0 \<le> cap po'"
    using r(2) le by simp
  moreover have "yil m < PILOT_BASLANGIC \<longrightarrow> cap po' = cap po \<and> err = None"
    using r(2) r(4) by simp
  ultimately show ?thesis
    using r(1) r(3) by blast
qed

theorem cap_azalma_witness:
  "(\<exists>err po' m'. PiyasaOperatoru_step (ornek_model 2026 0) ornek_ajanlar
          (ornek_operator 80 (3 / 100)) = (err, po', m')
      \<and> PILOT_BASLANGIC \<le> yil (ornek_model 2026 0)
      \<and> (0 :: real) \<le> 3 / 100 \<and> (3 / 100 :: real) \<le> 1 \<and> (0 :: real) \<le> 80
      \<and> cap po' = 80 * (1 - 3 / 100) \<and> cap po' \<le> 80)
   \<and> (\<exists>err po' m'. PiyasaOperatoru_step (ornek_model 2025 0) ornek_ajanlar
          (ornek_operator 80 (3 / 100)) = (err, po', m')
      \<and> yil (ornek_model 2025 0) < PILOT_BASLANGIC \<and> cap po' = 80)"
  using cap_azalma [of "ornek_model 2026 0" ornek_ajanlar "ornek_operator 80 (3 / 100)"]
        cap_azalma [of "ornek_model 2025 0" ornek_ajanlar "ornek_operator 80 (3 / 100)"]
  by (auto simp add: ornek_model_def ornek_operator_def PILOT_BASLANGIC_def)

section \<open>Facilities: what each part of the step touches\<close>

lemma tahsisat_hesapla_alanlar [simp]:
  "durum (tahsisat_hesapla m f) = durum f"
  "kalan_yatirim_suresi (tahsisat_hesapla m f) = kalan_yatirim_suresi f"
  "emisyon (tahsisat_hesapla m f) = emisyon f"
  "duyarlilik (tahsisat_hesapla m f) = duyarlilik f"
  "ceza_durumu (tahsisat_hesapla m f) = ceza_durumu f"
  "profil (tahsisat_hesapla m f) = profil f"
  "ihracatci (tahsisat_hesapla m f) = ihracatci f"
  "ajan_tipi (tahsisat_hesapla m f) = ajan_tipi f"
  "yatirim_durumu (tahsisat_hesapla m f) = yatirim_durumu f"
  "emisyon_azalma_potansiyeli (tahsisat_hesapla m f) = emisyon_azalma_potansiyeli f"
  "maliyet_limit (tahsisat_hesapla m f) = maliyet_limit f"
  "yatirim_bedeli (tahsisat_hesapla m f) = yatirim_bedeli f"
  "yatirim_onlemi_kaydet (tahsisat_hesapla m f) = yatirim_onlemi_kaydet f"
  by (simp_all add: tahsisat_hesapla_def Let_def)

lemma tahsisat_hesapla_negatif_degil:
  "0 \<le> izin_bankasi f \<Longrightarrow>
     0 \<le> izin_bankasi (tahsisat_hesapla m f) \<and> 0 \<le> net_emisyon (tahsisat_hesapla m f)"
  by (auto simp add: tahsisat_hesapla_def Let_def min_def)

lemma karar_ver_alanlar [simp]:
  "durum (snd (karar_ver m f p)) = durum f"
  "kalan_yatirim_suresi (snd (karar_ver m f p)) = kalan_yatirim_suresi f"
  "emisyon (snd (karar_ver m f p)) = emisyon f"
  "duyarlilik (snd (karar_ver m f p)) = duyarlilik f"
  "ceza_durumu (snd (karar_ver m f p)) = ceza_durumu f"
  "profil (snd (karar_ver m f p)) = profil f"
  "izin_bankasi (snd (karar_ver m f p)) = izin_bankasi f"
  "net_emisyon (snd (karar_ver m f p)) = net_emisyon f"
  "ajan_tipi (snd (karar_ver m f p)) = ajan_tipi f"
  "yatirim_durumu (snd (karar_ver m f p)) = yatirim_durumu f"
  "ucretsiz_tahsisat (snd (karar_ver m f p)) = ucretsiz_tahsisat f"
  "emisyon_azalma_potansiyeli (snd (karar_ver m f p)) = emisyon_azalma_potansiyeli f"
  by (simp_all add: karar_ver_def split: prod.splits)

lemma yatirim_baslat_alanlar [simp]:
  "durum (yatirim_baslat f p) = Donusum"
  "emisyon (yatirim_baslat f p) = emisyon f"
  "duyarlilik (yatirim_baslat f p) = duyarlilik f"
  "ceza_durumu (yatirim_baslat f p) = ceza_durumu f"
  "profil (yatirim_baslat f p) = profil f"
  "izin_bankasi (yatirim_baslat f p) = izin_bankasi f"
  "net_emisyon (yatirim_baslat f p) = net_emisyon f"
  "ajan_tipi (yatirim_baslat f p) = ajan_tipi f"
  "ucretsiz_tahsisat (yatirim_baslat f p) = ucretsiz_tahsisat f"
  by (simp_all add: yatirim_baslat_def Let_def split: option.splits prod.splits)

lemma yatirim_ilerlet_alanlar [simp]:
  "durum (yatirim_ilerlet f) \<noteq> Kapali \<longleftrightarrow> kalan_yatirim_suresi f = 1 \<or> durum f \<noteq> Kapali"
  "duyarlilik (yatirim_ilerlet f) = duyarlilik f"
  "profil (yatirim_ilerlet f) = profil f"
  "izin_bankasi (yatirim_ilerlet f) = izin_bankasi f"
  "net_emisyon (yatirim_ilerlet f) = net_emisyon f"
  "ajan_tipi (yatirim_ilerlet f) = ajan_tipi f"
  "ucretsiz_tahsisat (yatirim_ilerlet f) = ucretsiz_tahsisat f"
  "ceza_durumu (yatirim_ilerlet f) = (if kalan_yatirim_suresi f = 1 then False else ceza_durumu f)"
  by (simp_all add: yatirim_ilerlet_def Let_def)

text \<open>The step of the base class, with the decision and the facility it returns apart.\<close>

lemma EndustriyelTesis_step_acik:
  "EndustriyelTesis_step m f =
     (if durum f = Kapali then f
      else if kalan_yatirim_suresi f > 0 then yatirim_ilerlet (tahsisat_hesapla m f)
      else if durum f = Aktif then
        (case fst (karar_ver m (tahsisat_hesapla m f) (efektif_fiyat_hesapla m f)) of
           yatirim \<Rightarrow> yatirim_baslat
               (snd (karar_ver m (tahsisat_hesapla m f) (efektif_fiyat_hesapla m f)))
               (efektif_fiyat_hesapla m f)
         | kapat \<Rightarrow> (snd (karar_ver m (tahsisat_hesapla m f) (efektif_fiyat_hesapla m f)))
               \<lparr> durum := Kapali, emisyon := 0 \<rparr>
         | bekle \<Rightarrow> snd (karar_ver m (tahsisat_hesapla m f) (efektif_fiyat_hesapla m f)))
      else tahsisat_hesapla m f)"
  by (simp add: EndustriyelTesis_step_def Let_def split: prod.splits karar_t.splits)

lemma cbam_maliyeti_hesapla_alanlar [simp]:
  "durum (cbam_maliyeti_hesapla m f) = durum f"
  "kalan_yatirim_suresi (cbam_maliyeti_hesapla m f) = kalan_yatirim_suresi f"
  "emisyon (cbam_maliyeti_hesapla m f) = emisyon f"
  "baslangic_emisyon (cbam_maliyeti_hesapla m f) = baslangic_emisyon f"
  "duyarlilik (cbam_maliyeti_hesapla m f) = duyarlilik f"
  "ceza_durumu (cbam_maliyeti_hesapla m f) = ceza_durumu f"
  "profil (cbam_maliyeti_hesapla m f) = profil f"
  "ihracatci (cbam_maliyeti_hesapla m f) = ihracatci f"
  "izin_bankasi (cbam_maliyeti_hesapla m f) = izin_bankasi f"
  "net_emisyon (cbam_maliyeti_hesapla m f) = net_emisyon f"
  "ajan_tipi (cbam_maliyeti_hesapla m f) = ajan_tipi f"
  "yatirim_durumu (cbam_maliyeti_hesapla m f) = yatirim_durumu f"
  "maliyet_limit (cbam_maliyeti_hesapla m f) = maliyet_limit f"
  "yatirim_onlemi_kaydet (cbam_maliyeti_hesapla m f) = yatirim_onlemi_kaydet f"
  "emisyon_azalma_potansiyeli (cbam_maliyeti_hesapla m f) = emisyon_azalma_potansiyeli f"
  "ucretsiz_tahsisat (cbam_maliyeti_hesapla m f) = ucretsiz_tahsisat f"
  by (simp_all add: cbam_maliyeti_hesapla_def rekabet_gucu_hesapla_def Let_def)

lemma efektif_fiyat_cbam [simp]:
  "efektif_fiyat_hesapla m (cbam_maliyeti_hesapla m' f) = efektif_fiyat_hesapla m f"
  by (simp add: efektif_fiyat_hesapla_def)

lemma tesis_step_acik:
  "tesis_step m f =
     (if durum f = Kapali then f
      else EndustriyelTesis_step m
             (if ajan_tipi f = IhracatciTesis then cbam_maliyeti_hesapla m f else f))"
  by (simp add: tesis_step_def IhracatciAjani_step_def EndustriyelTesis_step_def
      split: tesis_tipi.splits)

lemma EndustriyelTesis_step_defter:
  "durum f \<noteq> Kapali \<Longrightarrow>
     izin_bankasi (EndustriyelTesis_step m f) = izin_bankasi (tahsisat_hesapla m f)
   \<and> net_emisyon (EndustriyelTesis_step m f) = net_emisyon (tahsisat_hesapla m f)
   \<and> ucretsiz_tahsisat (EndustriyelTesis_step m f) = ucretsiz_tahsisat (tahsisat_hesapla m f)"
  by (simp add: EndustriyelTesis_step_acik split: karar_t.splits)

lemma EndustriyelTesis_step_sabitler [simp]:
  "duyarlilik (EndustriyelTesis_step m f) = duyarlilik f"
  "ajan_tipi (EndustriyelTesis_step m f) = ajan_tipi f"
  "profil (EndustriyelTesis_step m f) = profil f"
  by (simp_all add: EndustriyelTesis_step_acik split: karar_t.splits)

lemma tesis_step_sabitler [simp]:
  "duyarlilik (tesis_step m f) = duyarlilik f"
  "ajan_tipi (tesis_step m f) = ajan_tipi f"
  "profil (tesis_step m f) = profil f"
  by (simp_all add: tesis_step_acik)

lemma tahsisat_hesapla_cbam:
  "izin_bankasi (tahsisat_hesapla m (cbam_maliyeti_hesapla m' f)) = izin_bankasi (tahsisat_hesapla m f)"
  "net_emisyon (tahsisat_hesapla m (cbam_maliyeti_hesapla m' f)) = net_emisyon (tahsisat_hesapla m f)"
  "ucretsiz_tahsisat (tahsisat_hesapla m (cbam_maliyeti_hesapla m' f))
     = ucretsiz_tahsisat (tahsisat_hesapla m f)"
  by (simp_all add: tahsisat_hesapla_def Let_def)

lemma tesis_step_defter:
  "durum f \<noteq> Kapali \<Longrightarrow>
     izin_bankasi (tesis_step m f) = izin_bankasi (tahsisat_hesapla m f)
   \<and> net_emisyon (tesis_step m f) = net_emisyon (tahsisat_hesapla m f)
   \<and> ucretsiz_tahsisat (tesis_step m f) = ucretsiz_tahsisat (tahsisat_hesapla m f)"
  by (simp add: tesis_step_acik EndustriyelTesis_step_defter tahsisat_hesapla_cbam)

lemma tesis_step_kapali [simp]: "durum f = Kapali \<Longrightarrow> tesis_step m f = f"
  by (simp add: tesis_step_acik)

lemma MRV_denetle_alanlar [simp]:
  "durum (snd (MRV_denetle mrv f r1 r2 u)) = durum f"
  "emisyon (snd (MRV_denetle mrv f r1 r2 u)) = emisyon f"
  "izin_bankasi (snd (MRV_denetle mrv f r1 r2 u)) = izin_bankasi f"
  "net_emisyon (snd (MRV_denetle mrv f r1 r2 u)) = net_emisyon f"
  "duyarlilik (snd (MRV_denetle mrv f r1 r2 u)) = duyarlilik f"
  "ajan_tipi (snd (MRV_denetle mrv f r1 r2 u)) = ajan_tipi f"
  "profil (snd (MRV_denetle mrv f r1 r2 u)) = profil f"
  by (simp_all add: MRV_denetle_def Let_def)

lemma MRV_denetle_kapali [simp]: "durum f = Kapali \<Longrightarrow> snd (MRV_denetle mrv f r1 r2 u) = f"
  by (simp add: MRV_denetle_def)

text \<open>A property that every step and every audit keeps holds along every history.\<close>

lemma gecmis_degismez:
  assumes "P f" and "\<And>g e. P g \<Longrightarrow> P (olay_uygula g e)"
  shows "P (gecmis_uygula f es)"
  unfolding gecmis_uygula_def using assms(1)
proof (induction es arbitrary: f)
  case Nil
  then show ?case by simp
next
  case (Cons e es)
  then show ?case using assms(2) by simp
qed

lemma gecmis_uygula_ekle:
  "gecmis_uygula f (es1 @ es2) = gecmis_uygula (gecmis_uygula f es1) es2"
  by (simp add: gecmis_uygula_def)

lemma olay_uygula_defter:
  "0 \<le> izin_bankasi f \<and> 0 \<le> net_emisyon f \<Longrightarrow>
     0 \<le> izin_bankasi (olay_uygula f e) \<and> 0 \<le> net_emisyon (olay_uygula f e)"
proof (cases e)
  case (Adim m)
  assume h: "0 \<le> izin_bankasi f \<and> 0 \<le> net_emisyon f"
  show ?thesis
  proof (cases "durum f = Kapali")
    case True
    with h Adim show ?thesis by simp
  next
    case False
    with h Adim show ?thesis
      using tahsisat_hesapla_negatif_degil [of f m] by (simp add: tesis_step_defter)
  qed
next
  case (Denetim mrv r1 r2 u)
  assume "0 \<le> izin_bankasi f \<and> 0 \<le> net_emisyon f"
  with Denetim show ?thesis by simp
qed

lemma tesis_olustur_defter:
  "izin_bankasi (tesis_olustur tip s c k u r) = 0"
  "net_emisyon (tesis_olustur tip s c k u r) = 0"
  "durum (tesis_olustur tip s c k u r) = Aktif"
  "duyarlilik (tesis_olustur tip s c k u r) = profil_duyarlilik (profil_getir s)"
  by (simp_all add: tesis_olustur_def EndustriyelTesis_init_def IhracatciAjani_init_def Let_def
      split: tesis_tipi.splits)

section \<open>The allowance ledger\<close>

lemma tahsisat_hesapla_sonuc:
  assumes "PILOT_BASLANGIC \<le> yil m"
  shows "ucretsiz_tahsisat (tahsisat_hesapla m f)
           = baslangic_emisyon f * (if yil m < TAM_UYGULAMA then 1 else 7 / 10)"
    and "izin_bankasi (tahsisat_hesapla m f)
           = (if baslangic_emisyon f * (if yil m < TAM_UYGULAMA then 1 else 7 / 10) - emisyon f > 0
              then izin_bankasi f
                   + (baslangic_emisyon f * (if yil m < TAM_UYGULAMA then 1 else 7 / 10) - emisyon f)
              else izin_bankasi f
                   - min (emisyon f
                          - baslangic_emisyon f * (if yil m < TAM_UYGULAMA then 1 else 7 / 10))
                         (izin_bankasi f))"
    and "net_emisyon (tahsisat_hesapla m f)
           = (if baslangic_emisyon f * (if yil m < TAM_UYGULAMA then 1 else 7 / 10) - emisyon f > 0
              then 0
              else (emisyon f
                    - baslangic_emisyon f * (if yil m < TAM_UYGULAMA then 1 else 7 / 10))
                   - min (emisyon f
                          - baslangic_emisyon f * (if yil m < TAM_UYGULAMA then 1 else 7 / 10))
                         (izin_bankasi f))"
  using assms by (simp_all add: tahsisat_hesapla_def Let_def abs_if)

text \<open>
  C4. Along every history of a facility the banked allowance and the net uncovered
  emission are never negative. In a year at or past the pilot start, the step of a
  facility that is not closed and whose bank is not negative sets the free allocation to
  the initial emission times the allocation fraction and reconciles it with the current
  emission: a surplus is added to the bank and the net uncovered emission is 0; a
  deficit that the bank covers is taken from the bank and the net uncovered emission is
  0; a deficit larger than the bank empties the bank and only the remainder is the net
  uncovered emission.
\<close>

theorem banka_ve_net_emisyon:
  "0 \<le> izin_bankasi (gecmis_uygula (tesis_olustur tip s c k u r) es)
   \<and> 0 \<le> net_emisyon (gecmis_uygula (tesis_olustur tip s c k u r) es)
   \<and> (durum f \<noteq> Kapali \<and> PILOT_BASLANGIC \<le> yil m \<and> 0 \<le> izin_bankasi f \<longrightarrow>
        (let tahsisat = baslangic_emisyon f * (if yil m < TAM_UYGULAMA then 1 else 7 / 10);
             eksik = emisyon f - tahsisat
         in ucretsiz_tahsisat (tesis_step m f) = tahsisat
          \<and> (eksik < 0 \<longrightarrow>
               izin_bankasi (tesis_step m f) = izin_bankasi f + (tahsisat - emisyon f)
               \<and> net_emisyon (tesis_step m f) = 0)
          \<and> (0 \<le> eksik \<and> eksik \<le> izin_bankasi f \<longrightarrow>
               izin_bankasi (tesis_step m f) = izin_bankasi f - eksik
               \<and> net_emisyon (tesis_step m f) = 0)
          \<and> (0 \<le> eksik \<and> izin_bankasi f < eksik \<longrightarrow>
               izin_bankasi (tesis_step m f) = 0
               \<and> net_emisyon (tesis_step m f) = eksik - izin_bankasi f)))"
proof (intro conjI impI)
  let ?f0 = "tesis_olustur tip s c k u r"
  have "0 \<le> izin_bankasi (gecmis_uygula ?f0 es) \<and> 0 \<le> net_emisyon (gecmis_uygula ?f0 es)"
    by (rule gecmis_degismez) (simp_all add: tesis_olustur_defter olay_uygula_defter)
  then show "0 \<le> izin_bankasi (gecmis_uygula ?f0 es)"
    and "0 \<le> net_emisyon (gecmis_uygula ?f0 es)"
    by simp_all
next
  assume h: "durum f \<noteq> Kapali \<and> PILOT_BASLANGIC \<le> yil m \<and> 0 \<le> izin_bankasi f"
  then show "let tahsisat = baslangic_emisyon f * (if yil m < TAM_UYGULAMA then 1 else 7 / 10);
             eksik = emisyon f - tahsisat
         in ucretsiz_tahsisat (tesis_step m f) = tahsisat
          \<and> (eksik < 0 \<longrightarrow>
               izin_bankasi (tesis_step m f) = izin_bankasi f + (tahsisat - emisyon f)
               \<and> net_emisyon (tesis_step m f) = 0)
          \<and> (0 \<le> eksik \<and> eksik \<le> izin_bankasi f \<longrightarrow>
               izin_bankasi (tesis_step m f) = izin_bankasi f - eksik
               \<and> net_emisyon (tesis_step m f) = 0)
          \<and> (0 \<le> eksik \<and> izin_bankasi f < eksik \<longrightarrow>
               izin_bankasi (tesis_step m f) = 0
               \<and> net_emisyon (tesis_step m f) = eksik - izin_bankasi f)"
    by (simp add: tesis_step_defter tahsisat_hesapla_sonuc Let_def min_def)
qed

lemma ornek_enerji_alanlar:
  "durum ornek_enerji_tesisi = Aktif"
  "emisyon ornek_enerji_tesisi = 1"
  "baslangic_emisyon ornek_enerji_tesisi = 1"
  "izin_bankasi ornek_enerji_tesisi = 0"
  by (simp_all add: ornek_enerji_tesisi_def EndustriyelTesis_init_def Let_def
      profil_getir_def SEKTOR_PROFILLERI_def Enerji_profili_def)

theorem banka_ve_net_emisyon_witness:
  "(durum ornek_enerji_tesisi \<noteq> Kapali \<and> PILOT_BASLANGIC \<le> yil (ornek_model 2028 150)
      \<and> 0 \<le> izin_bankasi ornek_enerji_tesisi
      \<and> ucretsiz_tahsisat (tesis_step (ornek_model 2028 150) ornek_enerji_tesisi) = 7 / 10
      \<and> izin_bankasi (tesis_step (ornek_model 2028 150) ornek_enerji_tesisi) = 0
      \<and> net_emisyon (tesis_step (ornek_model 2028 150) ornek_enerji_tesisi) = 3 / 10)
   \<and> (durum (ornek_enerji_tesisi\<lparr> izin_bankasi := 1 / 2 \<rparr>) \<noteq> Kapali
      \<and> 0 \<le> izin_bankasi (ornek_enerji_tesisi\<lparr> izin_bankasi := 1 / 2 \<rparr>)
      \<and> izin_bankasi (tesis_step (ornek_model 2028 150)
           (ornek_enerji_tesisi\<lparr> izin_bankasi := 1 / 2 \<rparr>)) = 2 / 10
      \<and> net_emisyon (tesis_step (ornek_model 2028 150)
           (ornek_enerji_tesisi\<lparr> izin_bankasi := 1 / 2 \<rparr>)) = 0)
   \<and> (durum (ornek_enerji_tesisi\<lparr> durum := Temiz, emisyon := 65 / 100 \<rparr>) \<noteq> Kapali
      \<and> 0 \<le> izin_bankasi (ornek_enerji_tesisi\<lparr> durum := Temiz, emisyon := 65 / 100 \<rparr>)
      \<and> izin_bankasi (tesis_step (ornek_model 2028 150)
           (ornek_enerji_tesisi\<lparr> durum := Temiz, emisyon := 65 / 100 \<rparr>)) = 5 / 100
      \<and> net_emisyon (tesis_step (ornek_model 2028 150)
           (ornek_enerji_tesisi\<lparr> durum := Temiz, emisyon := 65 / 100 \<rparr>)) = 0)"
  using banka_ve_net_emisyon [of _ _ _ _ _ _ _ ornek_enerji_tesisi "ornek_model 2028 150"]
        banka_ve_net_emisyon [of _ _ _ _ _ _ _ "ornek_enerji_tesisi\<lparr> izin_bankasi := 1 / 2 \<rparr>"
          "ornek_model 2028 150"]
        banka_ve_net_emisyon [of _ _ _ _ _ _ _
          "ornek_enerji_tesisi\<lparr> durum := Temiz, emisyon := 65 / 100 \<rparr>" "ornek_model 2028 150"]
  by (simp add: ornek_enerji_alanlar ornek_model_def PILOT_BASLANGIC_def TAM_UYGULAMA_def Let_def)

section \<open>Status transitions\<close>

lemma yatirim_ilerlet_durum:
  "durum (yatirim_ilerlet f) = (if kalan_yatirim_suresi f = 1 then Temiz else durum f)"
  "kalan_yatirim_suresi (yatirim_ilerlet f) = kalan_yatirim_suresi f - 1"
  by (simp_all add: yatirim_ilerlet_def Let_def)

lemma EndustriyelTesis_step_kapanis:
  assumes "durum f \<noteq> Kapali"
  shows "durum (EndustriyelTesis_step m f) = Kapali \<longleftrightarrow>
           \<not> kalan_yatirim_suresi f > 0 \<and> durum f = Aktif
           \<and> fst (karar_ver m (tahsisat_hesapla m f) (efektif_fiyat_hesapla m f)) = kapat"
    and "durum (EndustriyelTesis_step m f) = Kapali \<Longrightarrow> emisyon (EndustriyelTesis_step m f) = 0"
  using assms
  by (auto simp add: EndustriyelTesis_step_acik yatirim_ilerlet_durum
      split: karar_t.splits if_splits)

lemma tesis_step_kapanis:
  assumes "durum f \<noteq> Kapali" and "durum (tesis_step m f) = Kapali"
  shows "emisyon (tesis_step m f) = 0"
  using assms by (auto simp add: tesis_step_acik EndustriyelTesis_step_kapanis(2) split: if_splits)

lemma karar_ver_tesvik:
  "duyarlilik f = Tesvik \<Longrightarrow> fst (karar_ver m f p) = yatirim \<or> fst (karar_ver m f p) = bekle"
  by (simp add: karar_ver_def)

lemma karar_ver_ceza:
  "duyarlilik f \<noteq> Tesvik \<Longrightarrow> ceza_durumu f \<Longrightarrow> karar_ver m f p = (yatirim, f)"
  by (simp add: karar_ver_def)

lemma tesis_step_tesvik:
  assumes "duyarlilik f = Tesvik" and "durum f \<noteq> Kapali"
  shows "durum (tesis_step m f) \<noteq> Kapali"
proof -
  let ?g = "if ajan_tipi f = IhracatciTesis then cbam_maliyeti_hesapla m f else f"
  have g: "durum ?g \<noteq> Kapali" "duyarlilik ?g = Tesvik"
    using assms by simp_all
  have "fst (karar_ver m (tahsisat_hesapla m ?g) (efektif_fiyat_hesapla m ?g)) \<noteq> kapat"
    using karar_ver_tesvik [of "tahsisat_hesapla m ?g" m "efektif_fiyat_hesapla m ?g"] g(2)
    by auto
  then have "durum (EndustriyelTesis_step m ?g) \<noteq> Kapali"
    using EndustriyelTesis_step_kapanis(1) [OF g(1), of m] by blast
  then show ?thesis
    using assms(2) by (simp add: tesis_step_acik)
qed

lemma olay_uygula_kapali [simp]: "durum f = Kapali \<Longrightarrow> olay_uygula f e = f"
  by (cases e) simp_all

lemma gecmis_uygula_kapali: "durum f = Kapali \<Longrightarrow> gecmis_uygula f es = f"
  unfolding gecmis_uygula_def by (induction es) simp_all

lemma olay_uygula_kapali_sifir:
  assumes "durum f = Kapali \<longrightarrow> emisyon f = 0"
  shows "durum (olay_uygula f e) = Kapali \<longrightarrow> emisyon (olay_uygula f e) = 0"
proof (cases "durum f = Kapali")
  case True
  with assms show ?thesis by simp
next
  case False
  then show ?thesis
    by (cases e) (auto simp add: tesis_step_kapanis)
qed

text \<open>
  C5. A closed facility is left unchanged by every later step and audit: along any
  continuation of a history that has reached the closed status, the status stays closed
  and nothing of the facility changes. The step that closes a facility sets its emission
  to 0; so for a facility that starts out not closed (or closed with emission 0), the
  emission is 0 from the closing step onward.
\<close>

theorem kapali_kalici:
  "(durum f = Kapali \<longrightarrow> gecmis_uygula f es = f)
   \<and> (durum f \<noteq> Kapali \<and> durum (tesis_step m f) = Kapali \<longrightarrow> emisyon (tesis_step m f) = 0)
   \<and> ((durum f = Kapali \<longrightarrow> emisyon f = 0) \<and> durum (gecmis_uygula f es1) = Kapali \<longrightarrow>
        durum (gecmis_uygula f (es1 @ es2)) = Kapali
        \<and> emisyon (gecmis_uygula f (es1 @ es2)) = 0
        \<and> gecmis_uygula f (es1 @ es2) = gecmis_uygula f es1)"
proof (intro conjI impI)
  show "gecmis_uygula f es = f" if "durum f = Kapali"
    using that by (rule gecmis_uygula_kapali)
  show "emisyon (tesis_step m f) = 0" if "durum f \<noteq> Kapali \<and> durum (tesis_step m f) = Kapali"
    using that by (simp add: tesis_step_kapanis)
next
  assume h: "(durum f = Kapali \<longrightarrow> emisyon f = 0) \<and> durum (gecmis_uygula f es1) = Kapali"
  have inv: "durum (gecmis_uygula f es1) = Kapali \<longrightarrow> emisyon (gecmis_uygula f es1) = 0"
    by (rule gecmis_degismez) (use h in \<open>simp_all add: olay_uygula_kapali_sifir\<close>)
  have eq: "gecmis_uygula f (es1 @ es2) = gecmis_uygula f es1"
    using h by (simp add: gecmis_uygula_ekle gecmis_uygula_kapali)
  from eq show "gecmis_uygula f (es1 @ es2) = gecmis_uygula f es1" .
  from eq h show "durum (gecmis_uygula f (es1 @ es2)) = Kapali" by simp
  from eq h inv show "emisyon (gecmis_uygula f (es1 @ es2)) = 0" by simp
qed

lemma ornek_onlemsiz_adim:
  "durum ornek_onlemsiz_tesis = Aktif"
  "durum (tesis_step (ornek_model 2028 150) ornek_onlemsiz_tesis) = Kapali"
  by (simp_all add: ornek_onlemsiz_tesis_def EndustriyelTesis_init_def Let_def
      profil_getir_def SEKTOR_PROFILLERI_def Enerji_profili_def ornek_model_def
      tesis_step_def EndustriyelTesis_step_def tahsisat_hesapla_def efektif_fiyat_hesapla_def
      karar_ver_def PILOT_BASLANGIC_def TAM_UYGULAMA_def)

theorem kapali_kalici_witness:
  "durum ornek_onlemsiz_tesis = Aktif
   \<and> durum (gecmis_uygula ornek_onlemsiz_tesis [Adim (ornek_model 2028 150)]) = Kapali
   \<and> durum (gecmis_uygula ornek_onlemsiz_tesis
        ([Adim (ornek_model 2028 150)]
         @ [Denetim MRVAjani_init (1 / 10) (1 / 100) (1 / 10), Adim (ornek_model 2029 150)]))
       = Kapali
   \<and> emisyon (gecmis_uygula ornek_onlemsiz_tesis
        ([Adim (ornek_model 2028 150)]
         @ [Denetim MRVAjani_init (1 / 10) (1 / 100) (1 / 10), Adim (ornek_model 2029 150)]))
       = 0
   \<and> durum ornek_onlemsiz_tesis \<noteq> Kapali
   \<and> emisyon (tesis_step (ornek_model 2028 150) ornek_onlemsiz_tesis) = 0"
proof -
  have a: "durum ornek_onlemsiz_tesis = Kapali \<longrightarrow> emisyon ornek_onlemsiz_tesis = 0"
    by (simp add: ornek_onlemsiz_adim)
  have b: "durum (gecmis_uygula ornek_onlemsiz_tesis [Adim (ornek_model 2028 150)]) = Kapali"
    by (simp add: gecmis_uygula_def ornek_onlemsiz_adim)
  have c: "durum ornek_onlemsiz_tesis \<noteq> Kapali"
    by (simp add: ornek_onlemsiz_adim)
  have d: "emisyon (tesis_step (ornek_model 2028 150) ornek_onlemsiz_tesis) = 0"
    using c ornek_onlemsiz_adim(2)
      kapali_kalici [of ornek_onlemsiz_tesis "[]" "ornek_model 2028 150" "[]" "[]"]
    by blast
  have e: "durum (gecmis_uygula ornek_onlemsiz_tesis
        ([Adim (ornek_model 2028 150)]
         @ [Denetim MRVAjani_init (1 / 10) (1 / 100) (1 / 10), Adim (ornek_model 2029 150)]))
       = Kapali
   \<and> emisyon (gecmis_uygula ornek_onlemsiz_tesis
        ([Adim (ornek_model 2028 150)]
         @ [Denetim MRVAjani_init (1 / 10) (1 / 100) (1 / 10), Adim (ornek_model 2029 150)]))
       = 0"
    using a b
      kapali_kalici [of ornek_onlemsiz_tesis "[]" "ornek_model 2028 150"
        "[Adim (ornek_model 2028 150)]"
        "[Denetim MRVAjani_init (1 / 10) (1 / 100) (1 / 10), Adim (ornek_model 2029 150)]"]
    by blast
  from b c d e ornek_onlemsiz_adim(1) show ?thesis by blast
qed

text \<open>
  C10. For a facility of the subsidy class the decision procedure returns invest or
  wait, never close, whatever the price, the uncovered emission and the threshold; so
  along every history such a facility, not closed to begin with (as every freshly
  constructed one), is never closed.
\<close>

theorem tesvik_kapanmaz:
  "(duyarlilik f = Tesvik \<longrightarrow>
      fst (karar_ver m f p) \<noteq> kapat
      \<and> (fst (karar_ver m f p) = yatirim \<or> fst (karar_ver m f p) = bekle))
   \<and> (duyarlilik f = Tesvik \<and> durum f \<noteq> Kapali \<longrightarrow> durum (gecmis_uygula f es) \<noteq> Kapali)
   \<and> (profil_duyarlilik (profil_getir s) = Tesvik \<longrightarrow>
        durum (gecmis_uygula (tesis_olustur tip s c k u r) es) \<noteq> Kapali)"
proof -
  have inv: "duyarlilik g = Tesvik \<and> durum g \<noteq> Kapali \<Longrightarrow>
      duyarlilik (gecmis_uygula g es) = Tesvik \<and> durum (gecmis_uygula g es) \<noteq> Kapali"
    for g :: tesis
  proof (rule gecmis_degismez)
    fix h :: tesis and e
    assume "duyarlilik h = Tesvik \<and> durum h \<noteq> Kapali"
    then show "duyarlilik (olay_uygula h e) = Tesvik \<and> durum (olay_uygula h e) \<noteq> Kapali"
      by (cases e) (simp_all add: tesis_step_tesvik)
  qed
  have 1: "duyarlilik f = Tesvik \<longrightarrow>
      fst (karar_ver m f p) \<noteq> kapat
      \<and> (fst (karar_ver m f p) = yatirim \<or> fst (karar_ver m f p) = bekle)"
    using karar_ver_tesvik [of f m p] by auto
  have 2: "duyarlilik f = Tesvik \<and> durum f \<noteq> Kapali \<longrightarrow> durum (gecmis_uygula f es) \<noteq> Kapali"
    using inv [of f] by blast
  have 3: "profil_duyarlilik (profil_getir s) = Tesvik \<longrightarrow>
        durum (gecmis_uygula (tesis_olustur tip s c k u r) es) \<noteq> Kapali"
    using inv [of "tesis_olustur tip s c k u r"] by (simp add: tesis_olustur_defter)
  from 1 2 3 show ?thesis by blast
qed

lemma ornek_tarim_alanlar:
  "duyarlilik ornek_tarim_tesisi = Tesvik"
  "durum ornek_tarim_tesisi = Aktif"
  "maliyet_limit ornek_tarim_tesisi = 999"
  "net_emisyon (tesis_step (ornek_model 2028 150) ornek_tarim_tesisi) = 9"
  "efektif_fiyat_hesapla (ornek_model 2028 150) ornek_tarim_tesisi = 150"
  by (simp_all add: ornek_tarim_tesisi_def EndustriyelTesis_init_def Let_def
      profil_getir_def SEKTOR_PROFILLERI_def Tarim_profili_def ornek_model_def
      tesis_step_def EndustriyelTesis_step_def tahsisat_hesapla_def efektif_fiyat_hesapla_def
      karar_ver_def PILOT_BASLANGIC_def TAM_UYGULAMA_def)

theorem tesvik_kapanmaz_witness:
  "duyarlilik ornek_tarim_tesisi = Tesvik \<and> durum ornek_tarim_tesisi \<noteq> Kapali
   \<and> profil_duyarlilik (profil_getir ''Tarim'') = Tesvik
   \<and> net_emisyon (tesis_step (ornek_model 2028 150) ornek_tarim_tesisi)
        * efektif_fiyat_hesapla (ornek_model 2028 150) ornek_tarim_tesisi
       > maliyet_limit ornek_tarim_tesisi
   \<and> fst (karar_ver (ornek_model 2028 150)
            (tahsisat_hesapla (ornek_model 2028 150) ornek_tarim_tesisi) 150) \<noteq> kapat
   \<and> durum (gecmis_uygula ornek_tarim_tesisi
        [Adim (ornek_model 2028 150), Adim (ornek_model 2029 150)]) \<noteq> Kapali
   \<and> durum (gecmis_uygula (tesis_olustur Tesis ''Tarim'' ''Konya'' 100 1 (1 / 2))
        [Adim (ornek_model 2028 150), Adim (ornek_model 2029 150)]) \<noteq> Kapali"
proof -
  have a: "duyarlilik ornek_tarim_tesisi = Tesvik \<and> durum ornek_tarim_tesisi \<noteq> Kapali"
    by (simp add: ornek_tarim_alanlar)
  have b: "profil_duyarlilik (profil_getir ''Tarim'') = Tesvik"
    by (simp add: profil_getir_def SEKTOR_PROFILLERI_def Tarim_profili_def)
  have c: "net_emisyon (tesis_step (ornek_model 2028 150) ornek_tarim_tesisi)
        * efektif_fiyat_hesapla (ornek_model 2028 150) ornek_tarim_tesisi
       > maliyet_limit ornek_tarim_tesisi"
    by (simp add: ornek_tarim_alanlar)
  have d: "duyarlilik (tahsisat_hesapla (ornek_model 2028 150) ornek_tarim_tesisi) = Tesvik"
    by (simp add: ornek_tarim_alanlar)
  note t = tesvik_kapanmaz [where f = "tahsisat_hesapla (ornek_model 2028 150) ornek_tarim_tesisi"
      and m = "ornek_model 2028 150" and p = 150]
    tesvik_kapanmaz [where f = ornek_tarim_tesisi
      and es = "[Adim (ornek_model 2028 150), Adim (ornek_model 2029 150)]"
      and s = "''Tarim''" and tip = Tesis and c = "''Konya''" and k = 100 and u = 1
      and r = "1 / 2"]
  from a b c d t show ?thesis by blast
qed

section \<open>Penalties\<close>

lemma tesis_step_ceza_durumu:
  "ceza_durumu (tesis_step m f)
     = (if durum f \<noteq> Kapali \<and> kalan_yatirim_suresi f = 1 then False else ceza_durumu f)"
  by (simp add: tesis_step_acik EndustriyelTesis_step_acik split: karar_t.splits)

lemma tesis_step_tamamlanma:
  assumes "durum f \<noteq> Kapali" and "kalan_yatirim_suresi f = 1"
  shows "durum (tesis_step m f) = Temiz" and "kalan_yatirim_suresi (tesis_step m f) = 0"
  using assms by (simp_all add: tesis_step_acik EndustriyelTesis_step_acik yatirim_ilerlet_durum)

lemma tesis_step_ceza_yatirim:
  assumes "durum f = Aktif" and "\<not> kalan_yatirim_suresi f > 0"
    and "duyarlilik f \<noteq> Tesvik" and "ceza_durumu f"
  shows "durum (tesis_step m f) = Donusum"
  using assms by (simp add: tesis_step_acik EndustriyelTesis_step_acik karar_ver_ceza)

text \<open>
  C8. For a facility that is not of the subsidy class, an active penalty flag makes the
  decision procedure return invest at once, whatever the price and the catalog, without
  recording any measure; the step of such an active facility (no investment under way)
  moves it to the transition status. The step clears the penalty flag when the
  remaining duration of an investment goes from 1 to 0 (the status becoming clean), and
  in every other case leaves the flag as it was.
\<close>

theorem ceza_zorunlu_yatirim:
  "(duyarlilik f \<noteq> Tesvik \<and> ceza_durumu f \<longrightarrow> karar_ver m f p = (yatirim, f))
   \<and> (durum f = Aktif \<and> \<not> kalan_yatirim_suresi f > 0 \<and> duyarlilik f \<noteq> Tesvik \<and> ceza_durumu f
        \<longrightarrow> durum (tesis_step m f) = Donusum \<and> ceza_durumu (tesis_step m f))
   \<and> (durum f \<noteq> Kapali \<and> kalan_yatirim_suresi f = 1
        \<longrightarrow> \<not> ceza_durumu (tesis_step m f) \<and> durum (tesis_step m f) = Temiz
            \<and> kalan_yatirim_suresi (tesis_step m f) = 0)
   \<and> (\<not> (durum f \<noteq> Kapali \<and> kalan_yatirim_suresi f = 1)
        \<longrightarrow> ceza_durumu (tesis_step m f) = ceza_durumu f)"
proof (intro conjI impI)
  show "karar_ver m f p = (yatirim, f)" if "duyarlilik f \<noteq> Tesvik \<and> ceza_durumu f"
    using that by (simp add: karar_ver_ceza)
  show "durum (tesis_step m f) = Donusum"
    if "durum f = Aktif \<and> \<not> kalan_yatirim_suresi f > 0 \<and> duyarlilik f \<noteq> Tesvik \<and> ceza_durumu f"
    using that by (simp add: tesis_step_ceza_yatirim)
  show "ceza_durumu (tesis_step m f)"
    if "durum f = Aktif \<and> \<not> kalan_yatirim_suresi f > 0 \<and> duyarlilik f \<noteq> Tesvik \<and> ceza_durumu f"
    using that by (auto simp add: tesis_step_ceza_durumu)
  show "\<not> ceza_durumu (tesis_step m f)" if "durum f \<noteq> Kapali \<and> kalan_yatirim_suresi f = 1"
    using that by (simp add: tesis_step_ceza_durumu)
  show "durum (tesis_step m f) = Temiz" if "durum f \<noteq> Kapali \<and> kalan_yatirim_suresi f = 1"
    using that by (simp add: tesis_step_tamamlanma)
  show "kalan_yatirim_suresi (tesis_step m f) = 0"
    if "durum f \<noteq> Kapali \<and> kalan_yatirim_suresi f = 1"
    using that by (simp add: tesis_step_tamamlanma)
  show "ceza_durumu (tesis_step m f) = ceza_durumu f"
    if "\<not> (durum f \<noteq> Kapali \<and> kalan_yatirim_suresi f = 1)"
    using that by (auto simp add: tesis_step_ceza_durumu)
qed

lemma ornek_enerji_sinif:
  "duyarlilik ornek_enerji_tesisi = Vergi"
  "kalan_yatirim_suresi ornek_enerji_tesisi = 0"
  "ceza_durumu ornek_enerji_tesisi = False"
  by (simp_all add: ornek_enerji_tesisi_def EndustriyelTesis_init_def Let_def
      profil_getir_def SEKTOR_PROFILLERI_def Enerji_profili_def)

theorem ceza_zorunlu_yatirim_witness:
  "(durum (ornek_enerji_tesisi\<lparr> ceza_durumu := True \<rparr>) = Aktif
      \<and> \<not> kalan_yatirim_suresi (ornek_enerji_tesisi\<lparr> ceza_durumu := True \<rparr>) > 0
      \<and> duyarlilik (ornek_enerji_tesisi\<lparr> ceza_durumu := True \<rparr>) \<noteq> Tesvik
      \<and> ceza_durumu (ornek_enerji_tesisi\<lparr> ceza_durumu := True \<rparr>)
      \<and> karar_ver (ornek_model 2027 20) (ornek_enerji_tesisi\<lparr> ceza_durumu := True \<rparr>) (- 100)
          = (yatirim, ornek_enerji_tesisi\<lparr> ceza_durumu := True \<rparr>)
      \<and> durum (tesis_step (ornek_model 2027 20) (ornek_enerji_tesisi\<lparr> ceza_durumu := True \<rparr>))
          = Donusum)
   \<and> (durum (ornek_enerji_tesisi\<lparr> durum := Donusum, kalan_yatirim_suresi := 1,
               ceza_durumu := True \<rparr>) \<noteq> Kapali
      \<and> kalan_yatirim_suresi (ornek_enerji_tesisi\<lparr> durum := Donusum, kalan_yatirim_suresi := 1,
               ceza_durumu := True \<rparr>) = 1
      \<and> \<not> ceza_durumu (tesis_step (ornek_model 2027 20)
            (ornek_enerji_tesisi\<lparr> durum := Donusum, kalan_yatirim_suresi := 1,
               ceza_durumu := True \<rparr>)))
   \<and> (\<not> (durum (ornek_enerji_tesisi\<lparr> durum := Donusum, kalan_yatirim_suresi := 2,
               ceza_durumu := True \<rparr>) \<noteq> Kapali
          \<and> kalan_yatirim_suresi (ornek_enerji_tesisi\<lparr> durum := Donusum,
               kalan_yatirim_suresi := 2, ceza_durumu := True \<rparr>) = 1)
      \<and> ceza_durumu (tesis_step (ornek_model 2027 20)
            (ornek_enerji_tesisi\<lparr> durum := Donusum, kalan_yatirim_suresi := 2,
               ceza_durumu := True \<rparr>)))"
  using ceza_zorunlu_yatirim [of "ornek_enerji_tesisi\<lparr> ceza_durumu := True \<rparr>"
          "ornek_model 2027 20" "- 100"]
        ceza_zorunlu_yatirim [of "ornek_enerji_tesisi\<lparr> durum := Donusum,
          kalan_yatirim_suresi := 1, ceza_durumu := True \<rparr>" "ornek_model 2027 20" 0]
        ceza_zorunlu_yatirim [of "ornek_enerji_tesisi\<lparr> durum := Donusum,
          kalan_yatirim_suresi := 2, ceza_durumu := True \<rparr>" "ornek_model 2027 20" 0]
  by (simp add: ornek_enerji_alanlar ornek_enerji_sinif)

section \<open>The investment decision\<close>

lemma foldl_topla: "foldl (\<lambda>npv t. npv + g t) a ts = a + sum_list (map g ts)"
  by (induction ts arbitrary: a) (simp_all add: algebra_simps)

lemma npv_hesapla_spec: "npv_hesapla e p ol = 1000000 * spec_npv e p ol"
proof -
  have r: "set [1 ..< 10 + 1] = {1..10::nat}"
    by auto
  have s: "sum_list (map g [1 ..< 10 + 1]) = (\<Sum>t = 1..10. g t)" for g :: "nat \<Rightarrow> real"
    unfolding interv_sum_list_conv_sum_set_nat r ..
  have m: "(\<Sum>t = 1..10. (e * potansiyel ol * p * 1000000) / c ^ t)
        = 1000000 * (\<Sum>t = 1..10. (potansiyel ol * e * p) / c ^ t)" for c :: real
    by (subst sum_distrib_left) (rule sum.cong, simp_all)
  show ?thesis
    unfolding npv_hesapla_def spec_npv_def Let_def foldl_topla s m
    by (simp add: algebra_simps)
qed

lemma npv_hesapla_isaret:
  "npv_hesapla e p ol > 0 \<longleftrightarrow> spec_npv e p ol > 0"
  "npv_hesapla e p ol < npv_hesapla e p ol' \<longleftrightarrow> spec_npv e p ol < spec_npv e p ol'"
  "npv_hesapla e p ol \<le> npv_hesapla e p ol' \<longleftrightarrow> spec_npv e p ol \<le> spec_npv e p ol'"
  by (simp_all add: npv_hesapla_spec)

text \<open>The loop leaves the accumulator alone when no eligible measure beats it.\<close>

lemma onlem_dongusu_degismez:
  "\<forall>x \<in> set xs. mac (snd x) < p \<longrightarrow> npv_hesapla e p (snd x) \<le> b \<Longrightarrow>
     onlem_dongusu e p xs (b, s) = (b, s)"
  by (induction xs) (auto simp add: Let_def)

text \<open>
  Otherwise it ends on the first eligible measure of highest value: every eligible
  measure before it is strictly worse, none after it is better.
\<close>

lemma onlem_dongusu_en_iyi:
  "\<exists>x \<in> set xs. mac (snd x) < p \<and> npv_hesapla e p (snd x) > b \<Longrightarrow>
     \<exists>pre adi ol post.
        filter (\<lambda>(adi, ol). mac ol < p) xs = pre @ (adi, ol) # post
      \<and> (\<forall>x \<in> set pre. npv_hesapla e p (snd x) < npv_hesapla e p ol)
      \<and> (\<forall>x \<in> set post. npv_hesapla e p (snd x) \<le> npv_hesapla e p ol)
      \<and> npv_hesapla e p ol > b
      \<and> onlem_dongusu e p xs (b, s) = (npv_hesapla e p ol, Some (adi, ol))"
proof (induction xs arbitrary: b s)
  case Nil
  then show ?case by simp
next
  case (Cons y ys)
  obtain a o1 where y: "y = (a, o1)" by (cases y)
  let ?E = "filter (\<lambda>(adi, ol). mac ol < p)"
  let ?v = "npv_hesapla e p"
  have later: "\<exists>pre adi ol post.
        ?E (y # ys) = pre @ (adi, ol) # post
      \<and> (\<forall>x \<in> set pre. ?v (snd x) < ?v ol)
      \<and> (\<forall>x \<in> set post. ?v (snd x) \<le> ?v ol)
      \<and> ?v ol > b
      \<and> onlem_dongusu e p (y # ys) (b, s) = (?v ol, Some (adi, ol))"
    if step: "onlem_dongusu e p (y # ys) (b, s) = onlem_dongusu e p ys (c, s')"
      and better: "\<exists>x \<in> set ys. mac (snd x) < p \<and> ?v (snd x) > c"
      and bc: "b \<le> c"
      and head: "mac o1 < p \<longrightarrow> ?v o1 \<le> c"
    for c s'
  proof -
    from Cons.IH [OF better, of s'] obtain pre adi ol post where
      h: "?E ys = pre @ (adi, ol) # post"
         "\<forall>x \<in> set pre. ?v (snd x) < ?v ol"
         "\<forall>x \<in> set post. ?v (snd x) \<le> ?v ol"
         "?v ol > c"
         "onlem_dongusu e p ys (c, s') = (?v ol, Some (adi, ol))"
      by blast
    show ?thesis
    proof (cases "mac o1 < p")
      case True
      have 1: "?E (y # ys) = (y # pre) @ (adi, ol) # post"
        using True h(1) y by simp
      have 2: "\<forall>x \<in> set (y # pre). ?v (snd x) < ?v ol"
        using True head h(2) h(4) y by auto
      have 3: "?v ol > b"
        using h(4) bc by simp
      have 4: "onlem_dongusu e p (y # ys) (b, s) = (?v ol, Some (adi, ol))"
        using step h(5) by simp
      from 1 2 h(3) 3 4 show ?thesis
        by (intro exI [of _ "y # pre"] exI [of _ adi] exI [of _ ol] exI [of _ post] conjI)
    next
      case False
      have 1: "?E (y # ys) = pre @ (adi, ol) # post"
        using False h(1) y by simp
      have 3: "?v ol > b"
        using h(4) bc by simp
      have 4: "onlem_dongusu e p (y # ys) (b, s) = (?v ol, Some (adi, ol))"
        using step h(5) by simp
      from 1 h(2) h(3) 3 4 show ?thesis
        by (intro exI [of _ pre] exI [of _ adi] exI [of _ ol] exI [of _ post] conjI)
    qed
  qed
  show ?case
  proof (cases "mac o1 < p")
    case False
    then have "onlem_dongusu e p (y # ys) (b, s) = onlem_dongusu e p ys (b, s)"
      using y by simp
    moreover have "\<exists>x \<in> set ys. mac (snd x) < p \<and> ?v (snd x) > b"
      using Cons.prems False y by auto
    ultimately show ?thesis
      using later [of b s] False by simp
  next
    case elig: True
    show ?thesis
    proof (cases "?v o1 > b")
      case False
      then have "onlem_dongusu e p (y # ys) (b, s) = onlem_dongusu e p ys (b, s)"
        using y elig by (simp add: Let_def)
      moreover have "\<exists>x \<in> set ys. mac (snd x) < p \<and> ?v (snd x) > b"
        using Cons.prems False y by auto
      ultimately show ?thesis
        using later [of b s] False by simp
    next
      case True
      then have step: "onlem_dongusu e p (y # ys) (b, s)
          = onlem_dongusu e p ys (?v o1, Some (a, o1))"
        using y elig by (simp add: Let_def)
      show ?thesis
      proof (cases "\<exists>x \<in> set ys. mac (snd x) < p \<and> ?v (snd x) > ?v o1")
        case True
        then show ?thesis
          using later [OF step] \<open>?v o1 > b\<close> by simp
      next
        case False
        then have "\<forall>x \<in> set ys. mac (snd x) < p \<longrightarrow> ?v (snd x) \<le> ?v o1"
          by auto
        then have "onlem_dongusu e p ys (?v o1, Some (a, o1)) = (?v o1, Some (a, o1))"
          by (rule onlem_dongusu_degismez)
        with step have 4: "onlem_dongusu e p (y # ys) (b, s) = (?v o1, Some (a, o1))"
          by simp
        have 1: "?E (y # ys) = [] @ (a, o1) # ?E ys"
          using elig y by simp
        have 2: "\<forall>x \<in> set []. ?v (snd x) < ?v o1"
          by simp
        have 3: "\<forall>x \<in> set (?E ys). ?v (snd x) \<le> ?v o1"
          using False by auto
        from 1 2 3 \<open>?v o1 > b\<close> 4 show ?thesis
          by (intro exI [of _ "[]"] exI [of _ a] exI [of _ o1] exI [of _ "?E ys"] conjI)
      qed
    qed
  qed
qed

lemma onlem_dongusu_ust:
  "b \<le> c \<Longrightarrow> \<forall>x \<in> set xs. mac (snd x) < p \<longrightarrow> npv_hesapla e p (snd x) \<le> c \<Longrightarrow>
     fst (onlem_dongusu e p xs (b, s)) \<le> c"
  by (induction xs arbitrary: b s) (auto simp add: Let_def)

text \<open>The decision of a facility outside the subsidy class that carries no penalty.\<close>

lemma karar_ver_yatirim:
  assumes "duyarlilik f \<noteq> Tesvik" and "\<not> ceza_durumu f"
    and "\<exists>x \<in> set (mac_onlemler (profil f)).
           mac (snd x) < p \<and> npv_hesapla (emisyon f) p (snd x) > 0"
  shows "\<exists>pre adi ol post.
        filter (\<lambda>(adi, ol). mac ol < p) (mac_onlemler (profil f)) = pre @ (adi, ol) # post
      \<and> (\<forall>x \<in> set pre. npv_hesapla (emisyon f) p (snd x) < npv_hesapla (emisyon f) p ol)
      \<and> (\<forall>x \<in> set post. npv_hesapla (emisyon f) p (snd x) \<le> npv_hesapla (emisyon f) p ol)
      \<and> karar_ver m f p = (yatirim, f\<lparr> yatirim_onlemi_kaydet := Some (adi, ol) \<rparr>)"
proof -
  let ?xs = "mac_onlemler (profil f)"
  let ?v = "npv_hesapla (emisyon f) p"
  from assms(3) obtain x where x: "x \<in> set ?xs" "mac (snd x) < p" "?v (snd x) > 0"
    by blast
  then have "\<exists>x \<in> set ?xs. mac (snd x) < p \<and> ?v (snd x) > - 9999"
    by force
  from onlem_dongusu_en_iyi [OF this, of None] obtain pre adi ol post where
    h: "filter (\<lambda>(adi, ol). mac ol < p) ?xs = pre @ (adi, ol) # post"
       "\<forall>x \<in> set pre. ?v (snd x) < ?v ol"
       "\<forall>x \<in> set post. ?v (snd x) \<le> ?v ol"
       "onlem_dongusu (emisyon f) p ?xs (- 9999, None) = (?v ol, Some (adi, ol))"
    by blast
  have "x \<in> set (filter (\<lambda>(adi, ol). mac ol < p) ?xs)"
    using x by (simp add: case_prod_beta)
  then have "x \<in> set pre \<or> x = (adi, ol) \<or> x \<in> set post"
    unfolding h(1) by auto
  then have "?v (snd x) \<le> ?v ol"
    using h(2) h(3) by force
  then have "?v ol > 0"
    using x(3) by simp
  then have "karar_ver m f p = (yatirim, f\<lparr> yatirim_onlemi_kaydet := Some (adi, ol) \<rparr>)"
    using assms(1) assms(2) h(4) by (simp add: karar_ver_def)
  with h(1) h(2) h(3) show ?thesis
    by blast
qed

lemma karar_ver_yatirimsiz:
  assumes "duyarlilik f \<noteq> Tesvik" and "\<not> ceza_durumu f"
    and "\<forall>x \<in> set (mac_onlemler (profil f)).
           mac (snd x) < p \<longrightarrow> npv_hesapla (emisyon f) p (snd x) \<le> 0"
  shows "karar_ver m f p =
           (if net_emisyon f > 0 \<and> net_emisyon f * p > maliyet_limit f then (kapat, f)
            else (bekle, f))"
proof -
  have "fst (onlem_dongusu (emisyon f) p (mac_onlemler (profil f)) (- 9999, None)) \<le> 0"
    using assms(3) by (intro onlem_dongusu_ust) simp_all
  then show ?thesis
    using assms(1) assms(2) by (auto simp add: karar_ver_def split: prod.splits)
qed

lemma yatirim_baslat_kayitli:
  "yatirim_durumu (yatirim_baslat (f\<lparr> yatirim_onlemi_kaydet := Some (adi, ol) \<rparr>) p) = Some adi"
  "kalan_yatirim_suresi (yatirim_baslat (f\<lparr> yatirim_onlemi_kaydet := Some (adi, ol) \<rparr>) p)
     = sure ol"
  "emisyon_azalma_potansiyeli (yatirim_baslat (f\<lparr> yatirim_onlemi_kaydet := Some (adi, ol) \<rparr>) p)
     = potansiyel ol"
  "yatirim_onlemi_kaydet (yatirim_baslat (f\<lparr> yatirim_onlemi_kaydet := Some (adi, ol) \<rparr>) p)
     = Some (adi, ol)"
  by (simp_all add: yatirim_baslat_def)

text \<open>
  The step of an active facility with no investment under way, in terms of the
  decision; \<open>g\<close> is the facility as the base step receives it.
\<close>

lemma tesis_step_aktif:
  assumes "durum f = Aktif" and "\<not> kalan_yatirim_suresi f > 0"
  shows "\<exists>g. durum g = Aktif \<and> emisyon g = emisyon f \<and> profil g = profil f
           \<and> duyarlilik g = duyarlilik f \<and> ceza_durumu g = ceza_durumu f
           \<and> maliyet_limit g = maliyet_limit f
           \<and> yatirim_durumu g = yatirim_durumu f
           \<and> kalan_yatirim_suresi g = kalan_yatirim_suresi f
           \<and> net_emisyon g = net_emisyon (tahsisat_hesapla m f)
           \<and> tesis_step m f =
               (case fst (karar_ver m g (efektif_fiyat_hesapla m f)) of
                  yatirim \<Rightarrow> yatirim_baslat (snd (karar_ver m g (efektif_fiyat_hesapla m f)))
                               (efektif_fiyat_hesapla m f)
                | kapat \<Rightarrow> (snd (karar_ver m g (efektif_fiyat_hesapla m f)))
                               \<lparr> durum := Kapali, emisyon := 0 \<rparr>
                | bekle \<Rightarrow> snd (karar_ver m g (efektif_fiyat_hesapla m f)))"
proof (cases "ajan_tipi f = IhracatciTesis")
  case True
  let ?g = "tahsisat_hesapla m (cbam_maliyeti_hesapla m f)"
  have "tesis_step m f =
               (case fst (karar_ver m ?g (efektif_fiyat_hesapla m f)) of
                  yatirim \<Rightarrow> yatirim_baslat (snd (karar_ver m ?g (efektif_fiyat_hesapla m f)))
                               (efektif_fiyat_hesapla m f)
                | kapat \<Rightarrow> (snd (karar_ver m ?g (efektif_fiyat_hesapla m f)))
                               \<lparr> durum := Kapali, emisyon := 0 \<rparr>
                | bekle \<Rightarrow> snd (karar_ver m ?g (efektif_fiyat_hesapla m f)))"
    using assms True
    by (simp add: tesis_step_acik EndustriyelTesis_step_acik split: karar_t.splits)
  then show ?thesis
    using assms by (intro exI [of _ ?g]) (simp add: tahsisat_hesapla_cbam)
next
  case False
  let ?g = "tahsisat_hesapla m f"
  have "tesis_step m f =
               (case fst (karar_ver m ?g (efektif_fiyat_hesapla m f)) of
                  yatirim \<Rightarrow> yatirim_baslat (snd (karar_ver m ?g (efektif_fiyat_hesapla m f)))
                               (efektif_fiyat_hesapla m f)
                | kapat \<Rightarrow> (snd (karar_ver m ?g (efektif_fiyat_hesapla m f)))
                               \<lparr> durum := Kapali, emisyon := 0 \<rparr>
                | bekle \<Rightarrow> snd (karar_ver m ?g (efektif_fiyat_hesapla m f)))"
    using assms False by (simp add: tesis_step_acik EndustriyelTesis_step_acik)
  then show ?thesis
    using assms by (intro exI [of _ ?g]) simp
qed

lemma ornek_sanayi_alanlar:
  "durum ornek_sanayi_tesisi = Aktif"
  "ajan_tipi ornek_sanayi_tesisi = Tesis"
  "kalan_yatirim_suresi ornek_sanayi_tesisi = 0"
  "ceza_durumu ornek_sanayi_tesisi = False"
  "duyarlilik ornek_sanayi_tesisi = Vergi"
  "emisyon ornek_sanayi_tesisi = 3"
  "net_emisyon ornek_sanayi_tesisi = 9 / 10"
  "maliyet_limit ornek_sanayi_tesisi = 110"
  "yatirim_durumu ornek_sanayi_tesisi = None"
  "mac_onlemler (profil ornek_sanayi_tesisi) =
     [(''enerji_verimliligi'', \<lparr> mac = - 5, potansiyel = 10 / 100, sure = 2 \<rparr>),
      (''proses_iyilestirme'', \<lparr> mac = 25, potansiyel = 15 / 100, sure = 3 \<rparr>),
      (''teknoloji_degisimi'', \<lparr> mac = 60, potansiyel = 30 / 100, sure = 6 \<rparr>)]"
  "net_emisyon (tahsisat_hesapla (ornek_model 2029 fiyat) ornek_sanayi_tesisi) = 9 / 10"
  "efektif_fiyat_hesapla (ornek_model 2029 fiyat) ornek_sanayi_tesisi = fiyat"
  by (simp_all add: ornek_sanayi_tesisi_def EndustriyelTesis_init_def Let_def
      profil_getir_def SEKTOR_PROFILLERI_def Sanayi_profili_def ornek_model_def
      tahsisat_hesapla_def efektif_fiyat_hesapla_def PILOT_BASLANGIC_def TAM_UYGULAMA_def)

lemma ornek_sanayi_npv:
  "npv_hesapla 3 150 \<lparr> mac = - 5, potansiyel = 10 / 100, sure = 2 \<rparr> > 0"
  "npv_hesapla 3 150 \<lparr> mac = - 5, potansiyel = 10 / 100, sure = 2 \<rparr>
     < npv_hesapla 3 150 \<lparr> mac = 25, potansiyel = 15 / 100, sure = 3 \<rparr>"
  "npv_hesapla 3 150 \<lparr> mac = 25, potansiyel = 15 / 100, sure = 3 \<rparr>
     < npv_hesapla 3 150 \<lparr> mac = 60, potansiyel = 30 / 100, sure = 6 \<rparr>"
  "npv_hesapla 3 0 \<lparr> mac = - 5, potansiyel = 10 / 100, sure = 2 \<rparr> = 0"
  by (simp_all add: npv_hesapla_def Let_def upt_rec)

lemma ornek_sanayi_adim:
  "durum (tesis_step (ornek_model 2029 150) ornek_sanayi_tesisi) = Donusum"
  "yatirim_durumu (tesis_step (ornek_model 2029 150) ornek_sanayi_tesisi)
     = Some ''teknoloji_degisimi''"
  "emisyon (tesis_step (ornek_model 2029 150) ornek_sanayi_tesisi) = 3"
proof -
  let ?m = "ornek_model 2029 150"
  let ?g = "tahsisat_hesapla ?m ornek_sanayi_tesisi"
  have k: "karar_ver ?m ?g 150
      = (yatirim, ?g\<lparr> yatirim_onlemi_kaydet :=
           Some (''teknoloji_degisimi'', \<lparr> mac = 60, potansiyel = 30 / 100, sure = 6 \<rparr>) \<rparr>)"
    using ornek_sanayi_npv
    by (simp add: karar_ver_def ornek_sanayi_alanlar Let_def)
  have s: "tesis_step ?m ornek_sanayi_tesisi
      = yatirim_baslat (?g\<lparr> yatirim_onlemi_kaydet :=
           Some (''teknoloji_degisimi'', \<lparr> mac = 60, potansiyel = 30 / 100, sure = 6 \<rparr>) \<rparr>) 150"
    by (simp add: tesis_step_acik EndustriyelTesis_step_acik ornek_sanayi_alanlar k)
  show "durum (tesis_step ?m ornek_sanayi_tesisi) = Donusum"
    and "yatirim_durumu (tesis_step ?m ornek_sanayi_tesisi) = Some ''teknoloji_degisimi''"
    and "emisyon (tesis_step ?m ornek_sanayi_tesisi) = 3"
    unfolding s by (simp_all add: yatirim_baslat_kayitli ornek_sanayi_alanlar)
qed

text \<open>
  C1, as stated, at an active industrial facility of 3 Mt in 2029 at the price 150: its
  net uncovered emission is 0.9 Mt before and after the reconciliation of the step, the
  cost 135 exceeds the sector's threshold 110, and the step starts an investment
  instead of closing the facility.
\<close>

theorem kapanma_esigi_counterexample:
  "durum ornek_sanayi_tesisi = Aktif
   \<and> maliyet_limit ornek_sanayi_tesisi
       < net_emisyon ornek_sanayi_tesisi
         * efektif_fiyat_hesapla (ornek_model 2029 150) ornek_sanayi_tesisi
   \<and> maliyet_limit ornek_sanayi_tesisi
       < net_emisyon (tahsisat_hesapla (ornek_model 2029 150) ornek_sanayi_tesisi)
         * efektif_fiyat_hesapla (ornek_model 2029 150) ornek_sanayi_tesisi
   \<and> durum (tesis_step (ornek_model 2029 150) ornek_sanayi_tesisi) = Donusum
   \<and> durum (tesis_step (ornek_model 2029 150) ornek_sanayi_tesisi) \<noteq> Kapali
   \<and> emisyon (tesis_step (ornek_model 2029 150) ornek_sanayi_tesisi) = 3"
  by (simp add: ornek_sanayi_alanlar ornek_sanayi_adim)

text \<open>
  C1, amended. For an active facility with no investment under way that is not of the
  subsidy class, carries no penalty flag and has no catalog measure below the effective
  price with a positive net present value: if the net uncovered emission reconciled in
  this step is positive and its cost at the effective price exceeds the shutdown
  threshold, the step closes the facility and sets its emission to 0.
\<close>

theorem kapanma_esigi:
  "durum f = Aktif \<and> \<not> kalan_yatirim_suresi f > 0
   \<and> duyarlilik f \<noteq> Tesvik \<and> \<not> ceza_durumu f
   \<and> (\<forall>x \<in> set (mac_onlemler (profil f)).
         mac (snd x) < efektif_fiyat_hesapla m f
         \<longrightarrow> npv_hesapla (emisyon f) (efektif_fiyat_hesapla m f) (snd x) \<le> 0)
   \<and> 0 < net_emisyon (tahsisat_hesapla m f)
   \<and> maliyet_limit f < net_emisyon (tahsisat_hesapla m f) * efektif_fiyat_hesapla m f
   \<longrightarrow> durum (tesis_step m f) = Kapali \<and> emisyon (tesis_step m f) = 0"
proof
  let ?p = "efektif_fiyat_hesapla m f"
  assume h: "durum f = Aktif \<and> \<not> kalan_yatirim_suresi f > 0
   \<and> duyarlilik f \<noteq> Tesvik \<and> \<not> ceza_durumu f
   \<and> (\<forall>x \<in> set (mac_onlemler (profil f)).
         mac (snd x) < ?p \<longrightarrow> npv_hesapla (emisyon f) ?p (snd x) \<le> 0)
   \<and> 0 < net_emisyon (tahsisat_hesapla m f)
   \<and> maliyet_limit f < net_emisyon (tahsisat_hesapla m f) * ?p"
  then obtain g where
    g: "durum g = Aktif" "emisyon g = emisyon f" "profil g = profil f"
       "duyarlilik g = duyarlilik f" "ceza_durumu g = ceza_durumu f"
       "maliyet_limit g = maliyet_limit f"
       "net_emisyon g = net_emisyon (tahsisat_hesapla m f)"
    and s: "tesis_step m f =
               (case fst (karar_ver m g ?p) of
                  yatirim \<Rightarrow> yatirim_baslat (snd (karar_ver m g ?p)) ?p
                | kapat \<Rightarrow> (snd (karar_ver m g ?p))\<lparr> durum := Kapali, emisyon := 0 \<rparr>
                | bekle \<Rightarrow> snd (karar_ver m g ?p))"
    using tesis_step_aktif [of f m] by blast
  have "karar_ver m g ?p = (kapat, g)"
    using karar_ver_yatirimsiz [of g ?p m] h g by simp
  then show "durum (tesis_step m f) = Kapali \<and> emisyon (tesis_step m f) = 0"
    unfolding s by simp
qed

lemma ornek_onlemsiz_alanlar:
  "kalan_yatirim_suresi ornek_onlemsiz_tesis = 0"
  "duyarlilik ornek_onlemsiz_tesis = Vergi"
  "ceza_durumu ornek_onlemsiz_tesis = False"
  "mac_onlemler (profil ornek_onlemsiz_tesis) = []"
  "maliyet_limit ornek_onlemsiz_tesis = 90"
  "net_emisyon (tahsisat_hesapla (ornek_model 2028 150) ornek_onlemsiz_tesis) = 9 / 10"
  "efektif_fiyat_hesapla (ornek_model 2028 150) ornek_onlemsiz_tesis = 150"
  by (simp_all add: ornek_onlemsiz_tesis_def EndustriyelTesis_init_def Let_def
      profil_getir_def SEKTOR_PROFILLERI_def Enerji_profili_def ornek_model_def
      tahsisat_hesapla_def efektif_fiyat_hesapla_def PILOT_BASLANGIC_def TAM_UYGULAMA_def)

theorem kapanma_esigi_witness:
  "durum ornek_onlemsiz_tesis = Aktif \<and> \<not> kalan_yatirim_suresi ornek_onlemsiz_tesis > 0
   \<and> duyarlilik ornek_onlemsiz_tesis \<noteq> Tesvik \<and> \<not> ceza_durumu ornek_onlemsiz_tesis
   \<and> 0 < net_emisyon (tahsisat_hesapla (ornek_model 2028 150) ornek_onlemsiz_tesis)
   \<and> maliyet_limit ornek_onlemsiz_tesis
       < net_emisyon (tahsisat_hesapla (ornek_model 2028 150) ornek_onlemsiz_tesis)
         * efektif_fiyat_hesapla (ornek_model 2028 150) ornek_onlemsiz_tesis
   \<and> durum (tesis_step (ornek_model 2028 150) ornek_onlemsiz_tesis) = Kapali
   \<and> emisyon (tesis_step (ornek_model 2028 150) ornek_onlemsiz_tesis) = 0"
  using kapanma_esigi [of ornek_onlemsiz_tesis "ornek_model 2028 150"]
  by (simp add: ornek_onlemsiz_alanlar ornek_onlemsiz_adim(1))

lemma spec_uygun_onlemler_uye:
  "x \<in> set (spec_uygun_onlemler p xs) \<longleftrightarrow> x \<in> set xs \<and> mac (snd x) < p"
  by (auto simp add: spec_uygun_onlemler_def)

text \<open>
  C6. For an active facility with no investment under way, no penalty flag and a class
  other than the subsidy class, with \<open>p\<close> the effective price: the value the code
  computes for a measure is the specification's net present value, in dollars rather
  than million dollars (a factor of one million, which changes neither sign nor order).
  If some measure priced strictly below \<open>p\<close> has a positive net present value, the step
  starts an investment with the measure that comes first in catalog order among the
  eligible measures of highest value (every eligible measure before it is strictly
  worse, none after it is better), taking its name, duration and reduction potential.
  If no eligible measure has a positive net present value, the step starts no
  investment.
\<close>

theorem yatirim_karari:
  "durum f = Aktif \<and> \<not> kalan_yatirim_suresi f > 0 \<and> \<not> ceza_durumu f \<and> duyarlilik f \<noteq> Tesvik
   \<longrightarrow>
   (let p = efektif_fiyat_hesapla m f;
        uygun = spec_uygun_onlemler p (mac_onlemler (profil f));
        npv = (\<lambda>x. spec_npv (emisyon f) p (snd x))
    in (\<forall>x \<in> set (mac_onlemler (profil f)).
          npv_hesapla (emisyon f) p (snd x) = 1000000 * npv x)
     \<and> ((\<exists>x \<in> set uygun. npv x > 0) \<longrightarrow>
          (\<exists>pre adi ol post.
              uygun = pre @ (adi, ol) # post
            \<and> (\<forall>x \<in> set pre. npv x < npv (adi, ol))
            \<and> (\<forall>x \<in> set post. npv x \<le> npv (adi, ol))
            \<and> 0 < npv (adi, ol)
            \<and> durum (tesis_step m f) = Donusum
            \<and> yatirim_durumu (tesis_step m f) = Some adi
            \<and> kalan_yatirim_suresi (tesis_step m f) = sure ol
            \<and> emisyon_azalma_potansiyeli (tesis_step m f) = potansiyel ol))
     \<and> (\<not> (\<exists>x \<in> set uygun. npv x > 0) \<longrightarrow>
          durum (tesis_step m f) \<noteq> Donusum
          \<and> yatirim_durumu (tesis_step m f) = yatirim_durumu f
          \<and> kalan_yatirim_suresi (tesis_step m f) = kalan_yatirim_suresi f))"
proof
  let ?p = "efektif_fiyat_hesapla m f"
  let ?U = "spec_uygun_onlemler ?p (mac_onlemler (profil f))"
  let ?n = "\<lambda>x. spec_npv (emisyon f) ?p (snd x)"
  assume h: "durum f = Aktif \<and> \<not> kalan_yatirim_suresi f > 0 \<and> \<not> ceza_durumu f
    \<and> duyarlilik f \<noteq> Tesvik"
  then obtain g where
    g: "durum g = Aktif" "emisyon g = emisyon f" "profil g = profil f"
       "duyarlilik g = duyarlilik f" "ceza_durumu g = ceza_durumu f"
       "yatirim_durumu g = yatirim_durumu f"
       "kalan_yatirim_suresi g = kalan_yatirim_suresi f"
    and s: "tesis_step m f =
               (case fst (karar_ver m g ?p) of
                  yatirim \<Rightarrow> yatirim_baslat (snd (karar_ver m g ?p)) ?p
                | kapat \<Rightarrow> (snd (karar_ver m g ?p))\<lparr> durum := Kapali, emisyon := 0 \<rparr>
                | bekle \<Rightarrow> snd (karar_ver m g ?p))"
    using tesis_step_aktif [of f m] by blast
  have gd: "duyarlilik g \<noteq> Tesvik" "\<not> ceza_durumu g"
    using h g by simp_all
  have a: "\<forall>x \<in> set (mac_onlemler (profil f)).
      npv_hesapla (emisyon f) ?p (snd x) = 1000000 * ?n x"
    by (simp add: npv_hesapla_spec)
  have b: "\<exists>pre adi ol post.
              ?U = pre @ (adi, ol) # post
            \<and> (\<forall>x \<in> set pre. ?n x < ?n (adi, ol))
            \<and> (\<forall>x \<in> set post. ?n x \<le> ?n (adi, ol))
            \<and> 0 < ?n (adi, ol)
            \<and> durum (tesis_step m f) = Donusum
            \<and> yatirim_durumu (tesis_step m f) = Some adi
            \<and> kalan_yatirim_suresi (tesis_step m f) = sure ol
            \<and> emisyon_azalma_potansiyeli (tesis_step m f) = potansiyel ol"
    if pos: "\<exists>x \<in> set ?U. ?n x > 0"
  proof -
    from pos obtain x where x: "x \<in> set ?U" "?n x > 0"
      by blast
    then have "\<exists>x \<in> set (mac_onlemler (profil g)).
        mac (snd x) < ?p \<and> npv_hesapla (emisyon g) ?p (snd x) > 0"
      using g by (auto simp add: spec_uygun_onlemler_uye npv_hesapla_isaret)
    from karar_ver_yatirim [OF gd this, of m] obtain pre adi ol post where
      k: "?U = pre @ (adi, ol) # post"
         "\<forall>x \<in> set pre. ?n x < ?n (adi, ol)"
         "\<forall>x \<in> set post. ?n x \<le> ?n (adi, ol)"
         "karar_ver m g ?p = (yatirim, g\<lparr> yatirim_onlemi_kaydet := Some (adi, ol) \<rparr>)"
      unfolding spec_uygun_onlemler_def npv_hesapla_isaret g by auto
    have "x \<in> set pre \<or> x = (adi, ol) \<or> x \<in> set post"
      using x(1) unfolding k(1) by auto
    then have "?n x \<le> ?n (adi, ol)"
      using k(2) k(3) by force
    then have top: "0 < ?n (adi, ol)"
      using x(2) by simp
    have st: "tesis_step m f
        = yatirim_baslat (g\<lparr> yatirim_onlemi_kaydet := Some (adi, ol) \<rparr>) ?p"
      unfolding s k(4) by simp
    have "durum (tesis_step m f) = Donusum
        \<and> yatirim_durumu (tesis_step m f) = Some adi
        \<and> kalan_yatirim_suresi (tesis_step m f) = sure ol
        \<and> emisyon_azalma_potansiyeli (tesis_step m f) = potansiyel ol"
      unfolding st by (simp add: yatirim_baslat_kayitli)
    with k(1) k(2) k(3) top show ?thesis
      by blast
  qed
  have c: "durum (tesis_step m f) \<noteq> Donusum
          \<and> yatirim_durumu (tesis_step m f) = yatirim_durumu f
          \<and> kalan_yatirim_suresi (tesis_step m f) = kalan_yatirim_suresi f"
    if neg: "\<not> (\<exists>x \<in> set ?U. ?n x > 0)"
  proof -
    from neg have "\<forall>x \<in> set (mac_onlemler (profil g)).
        mac (snd x) < ?p \<longrightarrow> npv_hesapla (emisyon g) ?p (snd x) \<le> 0"
      using g by (simp add: spec_uygun_onlemler_uye npv_hesapla_spec not_less)
    from karar_ver_yatirimsiz [OF gd this, of m]
    have "karar_ver m g ?p = (kapat, g) \<or> karar_ver m g ?p = (bekle, g)"
      by (simp split: if_splits)
    then show ?thesis
      unfolding s using g by auto
  qed
  from a b c show "let p = ?p; uygun = spec_uygun_onlemler p (mac_onlemler (profil f));
        npv = (\<lambda>x. spec_npv (emisyon f) p (snd x))
    in (\<forall>x \<in> set (mac_onlemler (profil f)).
          npv_hesapla (emisyon f) p (snd x) = 1000000 * npv x)
     \<and> ((\<exists>x \<in> set uygun. npv x > 0) \<longrightarrow>
          (\<exists>pre adi ol post.
              uygun = pre @ (adi, ol) # post
            \<and> (\<forall>x \<in> set pre. npv x < npv (adi, ol))
            \<and> (\<forall>x \<in> set post. npv x \<le> npv (adi, ol))
            \<and> 0 < npv (adi, ol)
            \<and> durum (tesis_step m f) = Donusum
            \<and> yatirim_durumu (tesis_step m f) = Some adi
            \<and> kalan_yatirim_suresi (tesis_step m f) = sure ol
            \<and> emisyon_azalma_potansiyeli (tesis_step m f) = potansiyel ol))
     \<and> (\<not> (\<exists>x \<in> set uygun. npv x > 0) \<longrightarrow>
          durum (tesis_step m f) \<noteq> Donusum
          \<and> yatirim_durumu (tesis_step m f) = yatirim_durumu f
          \<and> kalan_yatirim_suresi (tesis_step m f) = kalan_yatirim_suresi f)"
    unfolding Let_def by blast
qed

lemma ornek_esit_alanlar:
  "durum ornek_esit_tesis = Aktif"
  "kalan_yatirim_suresi ornek_esit_tesis = 0"
  "ceza_durumu ornek_esit_tesis = False"
  "duyarlilik ornek_esit_tesis = Vergi"
  "emisyon ornek_esit_tesis = 3"
  "mac_onlemler (profil ornek_esit_tesis) =
     [(''birinci'', \<lparr> mac = 25, potansiyel = 15 / 100, sure = 3 \<rparr>),
      (''ikinci'', \<lparr> mac = 25, potansiyel = 15 / 100, sure = 4 \<rparr>)]"
  "efektif_fiyat_hesapla (ornek_model 2029 fiyat) ornek_esit_tesis = fiyat"
  by (simp_all add: ornek_esit_tesis_def ornek_sanayi_tesisi_def EndustriyelTesis_init_def
      Let_def profil_getir_def SEKTOR_PROFILLERI_def Sanayi_profili_def ornek_model_def
      efektif_fiyat_hesapla_def)

lemma ornek_spec_npv:
  "spec_npv 3 150 \<lparr> mac = 25, potansiyel = 15 / 100, sure = 3 \<rparr> > 0"
  "spec_npv 3 150 \<lparr> mac = 25, potansiyel = 15 / 100, sure = 4 \<rparr>
     = spec_npv 3 150 \<lparr> mac = 25, potansiyel = 15 / 100, sure = 3 \<rparr>"
  "spec_npv 3 150 \<lparr> mac = - 5, potansiyel = 10 / 100, sure = 2 \<rparr> > 0"
  "spec_npv 3 0 \<lparr> mac = - 5, potansiyel = 10 / 100, sure = 2 \<rparr> = 0"
proof -
  have "npv_hesapla 3 150 \<lparr> mac = 25, potansiyel = 15 / 100, sure = 3 \<rparr> > 0"
    by (simp add: npv_hesapla_def Let_def upt_rec)
  then show "spec_npv 3 150 \<lparr> mac = 25, potansiyel = 15 / 100, sure = 3 \<rparr> > 0"
    by (simp add: npv_hesapla_isaret)
  show "spec_npv 3 150 \<lparr> mac = 25, potansiyel = 15 / 100, sure = 4 \<rparr>
     = spec_npv 3 150 \<lparr> mac = 25, potansiyel = 15 / 100, sure = 3 \<rparr>"
    by (simp add: spec_npv_def)
  show "spec_npv 3 150 \<lparr> mac = - 5, potansiyel = 10 / 100, sure = 2 \<rparr> > 0"
    using ornek_sanayi_npv(1) by (simp add: npv_hesapla_isaret)
  show "spec_npv 3 0 \<lparr> mac = - 5, potansiyel = 10 / 100, sure = 2 \<rparr> = 0"
    using ornek_sanayi_npv(4) by (simp add: npv_hesapla_spec)
qed

theorem yatirim_karari_witness:
  "(durum ornek_sanayi_tesisi = Aktif \<and> \<not> kalan_yatirim_suresi ornek_sanayi_tesisi > 0
      \<and> \<not> ceza_durumu ornek_sanayi_tesisi \<and> duyarlilik ornek_sanayi_tesisi \<noteq> Tesvik
      \<and> (\<exists>x \<in> set (spec_uygun_onlemler 150 (mac_onlemler (profil ornek_sanayi_tesisi))).
            spec_npv 3 150 (snd x) > 0)
      \<and> durum (tesis_step (ornek_model 2029 150) ornek_sanayi_tesisi) = Donusum)
   \<and> (durum ornek_esit_tesis = Aktif \<and> \<not> kalan_yatirim_suresi ornek_esit_tesis > 0
      \<and> \<not> ceza_durumu ornek_esit_tesis \<and> duyarlilik ornek_esit_tesis \<noteq> Tesvik
      \<and> (\<exists>x \<in> set (spec_uygun_onlemler 150 (mac_onlemler (profil ornek_esit_tesis))).
            spec_npv 3 150 (snd x) > 0)
      \<and> yatirim_durumu (tesis_step (ornek_model 2029 150) ornek_esit_tesis) = Some ''birinci''
      \<and> kalan_yatirim_suresi (tesis_step (ornek_model 2029 150) ornek_esit_tesis) = 3)
   \<and> (\<not> (\<exists>x \<in> set (spec_uygun_onlemler 0 (mac_onlemler (profil ornek_sanayi_tesisi))).
            spec_npv 3 0 (snd x) > 0)
      \<and> durum (tesis_step (ornek_model 2029 0) ornek_sanayi_tesisi) \<noteq> Donusum)"
proof (intro conjI)
  have hs: "durum ornek_sanayi_tesisi = Aktif \<and> \<not> kalan_yatirim_suresi ornek_sanayi_tesisi > 0
      \<and> \<not> ceza_durumu ornek_sanayi_tesisi \<and> duyarlilik ornek_sanayi_tesisi \<noteq> Tesvik"
    by (simp add: ornek_sanayi_alanlar)
  have he: "durum ornek_esit_tesis = Aktif \<and> \<not> kalan_yatirim_suresi ornek_esit_tesis > 0
      \<and> \<not> ceza_durumu ornek_esit_tesis \<and> duyarlilik ornek_esit_tesis \<noteq> Tesvik"
    by (simp add: ornek_esit_alanlar)
  from hs show "durum ornek_sanayi_tesisi = Aktif"
    and "\<not> kalan_yatirim_suresi ornek_sanayi_tesisi > 0"
    and "\<not> ceza_durumu ornek_sanayi_tesisi" and "duyarlilik ornek_sanayi_tesisi \<noteq> Tesvik"
    by simp_all
  from he show "durum ornek_esit_tesis = Aktif"
    and "\<not> kalan_yatirim_suresi ornek_esit_tesis > 0"
    and "\<not> ceza_durumu ornek_esit_tesis" and "duyarlilik ornek_esit_tesis \<noteq> Tesvik"
    by simp_all
  show p1: "\<exists>x \<in> set (spec_uygun_onlemler 150 (mac_onlemler (profil ornek_sanayi_tesisi))).
            spec_npv 3 150 (snd x) > 0"
    using ornek_spec_npv(3)
    by (simp add: ornek_sanayi_alanlar spec_uygun_onlemler_def)
  show p2: "\<exists>x \<in> set (spec_uygun_onlemler 150 (mac_onlemler (profil ornek_esit_tesis))).
            spec_npv 3 150 (snd x) > 0"
    using ornek_spec_npv(1)
    by (simp add: ornek_esit_alanlar spec_uygun_onlemler_def)
  show p3: "\<not> (\<exists>x \<in> set (spec_uygun_onlemler 0 (mac_onlemler (profil ornek_sanayi_tesisi))).
            spec_npv 3 0 (snd x) > 0)"
    using ornek_spec_npv(4)
    by (simp add: ornek_sanayi_alanlar spec_uygun_onlemler_def)
  show "durum (tesis_step (ornek_model 2029 150) ornek_sanayi_tesisi) = Donusum"
    using yatirim_karari [of ornek_sanayi_tesisi "ornek_model 2029 150"] hs p1
    by (simp add: Let_def ornek_sanayi_alanlar) blast
  show "durum (tesis_step (ornek_model 2029 0) ornek_sanayi_tesisi) \<noteq> Donusum"
    using yatirim_karari [of ornek_sanayi_tesisi "ornek_model 2029 0"] hs p3
    by (simp add: Let_def ornek_sanayi_alanlar)
  from yatirim_karari [of ornek_esit_tesis "ornek_model 2029 150"] he p2
  obtain pre adi ol post where
    k: "spec_uygun_onlemler 150 (mac_onlemler (profil ornek_esit_tesis)) = pre @ (adi, ol) # post"
       "\<forall>x \<in> set pre. spec_npv 3 150 (snd x) < spec_npv 3 150 ol"
       "yatirim_durumu (tesis_step (ornek_model 2029 150) ornek_esit_tesis) = Some adi"
       "kalan_yatirim_suresi (tesis_step (ornek_model 2029 150) ornek_esit_tesis) = sure ol"
    by (simp add: Let_def ornek_esit_alanlar) blast
  have "pre = [] \<and> adi = ''birinci'' \<and> sure ol = 3"
    using k(1) k(2) ornek_spec_npv(2)
    by (auto simp add: ornek_esit_alanlar spec_uygun_onlemler_def Cons_eq_append_conv)
  with k(3) k(4)
  show "yatirim_durumu (tesis_step (ornek_model 2029 150) ornek_esit_tesis) = Some ''birinci''"
    and "kalan_yatirim_suresi (tesis_step (ornek_model 2029 150) ornek_esit_tesis) = 3"
    by simp_all
qed

section \<open>Households\<close>

lemma Hanehalki_step_emisyon:
  "hane_durum h = Aktif \<Longrightarrow>
     hane_emisyon (Hanehalki_step m h)
       = (if karbon_fiyati m > 0
          then (tuketim h / 1000) * EMISYON_FAKTORU_TR
               * max (1 / 2) (1 + elastikiyet h * (karbon_fiyati m / 100))
          else (tuketim h / 1000) * EMISYON_FAKTORU_TR)"
  by (simp add: Hanehalki_step_def Let_def)

lemma ornek_hane_alanlar:
  "hane_durum ornek_hane = Aktif"
  "tuketim ornek_hane = 2000"
  "elastikiyet ornek_hane = - (6 / 10)"
  by (simp_all add: ornek_hane_def Hanehalki_init_def)

text \<open>
  C7, as stated, at a low-income household of 2000 kWh (elasticity -0.6): at the prices
  100 and 150 the multiplier is at its floor 0.5 both times, so the emission is the same
  0.442 t and does not decrease.
\<close>

theorem hane_emisyonu_counterexample:
  "(0 :: real) < 100 \<and> (100 :: real) < 150
   \<and> hane_emisyon (Hanehalki_step (ornek_model 2030 100) ornek_hane) = 221 / 500
   \<and> hane_emisyon (Hanehalki_step (ornek_model 2030 150) ornek_hane) = 221 / 500
   \<and> \<not> hane_emisyon (Hanehalki_step (ornek_model 2030 150) ornek_hane)
         < hane_emisyon (Hanehalki_step (ornek_model 2030 100) ornek_hane)"
  by (simp add: Hanehalki_step_emisyon ornek_hane_alanlar ornek_model_def
      EMISYON_FAKTORU_TR_def)

text \<open>
  C7, amended. For an active household with positive consumption and negative
  elasticity, at a positive carbon price \<open>p\<close> the step sets the emission to
  (consumption / 1000) * grid emission factor * max(0.5, 1 + elasticity * p / 100). At a
  higher price the emission is never higher, and it is at least 50% of the emission the
  step computes when there is no carbon price.
\<close>

theorem hane_emisyonu:
  "hane_durum h = Aktif \<and> 0 < tuketim h \<and> elastikiyet h < 0
   \<and> 0 < karbon_fiyati m \<and> karbon_fiyati m < p2
   \<longrightarrow>
     hane_emisyon (Hanehalki_step m h)
       = (tuketim h / 1000) * EMISYON_FAKTORU_TR
         * max (1 / 2) (1 + elastikiyet h * (karbon_fiyati m / 100))
   \<and> hane_emisyon (Hanehalki_step (m\<lparr> karbon_fiyati := p2 \<rparr>) h)
       \<le> hane_emisyon (Hanehalki_step m h)
   \<and> hane_emisyon (Hanehalki_step (m\<lparr> karbon_fiyati := 0 \<rparr>) h) / 2
       \<le> hane_emisyon (Hanehalki_step m h)"
proof (intro impI)
  let ?p1 = "karbon_fiyati m"
  let ?c = "(tuketim h / 1000) * EMISYON_FAKTORU_TR"
  let ?k = "\<lambda>p. max (1 / 2) (1 + elastikiyet h * (p / 100))"
  assume h: "hane_durum h = Aktif \<and> 0 < tuketim h \<and> elastikiyet h < 0
   \<and> 0 < ?p1 \<and> ?p1 < p2"
  have c: "0 < ?c"
    using h by (simp add: EMISYON_FAKTORU_TR_def)
  have e1: "hane_emisyon (Hanehalki_step m h) = ?c * ?k ?p1"
    using h by (simp add: Hanehalki_step_emisyon)
  have e2: "hane_emisyon (Hanehalki_step (m\<lparr> karbon_fiyati := p2 \<rparr>) h) = ?c * ?k p2"
    using h by (simp add: Hanehalki_step_emisyon)
  have e0: "hane_emisyon (Hanehalki_step (m\<lparr> karbon_fiyati := 0 \<rparr>) h) = ?c"
    using h by (simp add: Hanehalki_step_emisyon)
  have lin: "elastikiyet h * (p2 / 100) < elastikiyet h * (?p1 / 100)"
    using h by (simp add: mult_less_cancel_left_neg)
  then have lin2: "1 + elastikiyet h * (p2 / 100) < 1 + elastikiyet h * (?p1 / 100)"
    by linarith
  have mono: "?k p2 \<le> ?k ?p1"
    using lin2 by linarith
  have floor: "1 / 2 \<le> ?k ?p1"
    by simp
  have "?c * ?k p2 \<le> ?c * ?k ?p1"
    using c mono by (simp only: mult_le_cancel_left_pos)
  moreover have "?c / 2 \<le> ?c * ?k ?p1"
  proof -
    have "?c * (1 / 2) \<le> ?c * ?k ?p1"
      using c floor by (simp only: mult_le_cancel_left_pos)
    then show ?thesis by simp
  qed
  ultimately show "hane_emisyon (Hanehalki_step m h) = ?c * ?k ?p1
   \<and> hane_emisyon (Hanehalki_step (m\<lparr> karbon_fiyati := p2 \<rparr>) h)
       \<le> hane_emisyon (Hanehalki_step m h)
   \<and> hane_emisyon (Hanehalki_step (m\<lparr> karbon_fiyati := 0 \<rparr>) h) / 2
       \<le> hane_emisyon (Hanehalki_step m h)"
    unfolding e1 e2 e0 by blast
qed

theorem hane_emisyonu_witness:
  "hane_durum ornek_hane = Aktif \<and> 0 < tuketim ornek_hane \<and> elastikiyet ornek_hane < 0
   \<and> 0 < karbon_fiyati (ornek_model 2030 20) \<and> karbon_fiyati (ornek_model 2030 20) < 50
   \<and> hane_emisyon (Hanehalki_step (ornek_model 2030 20) ornek_hane)
       = (2000 / 1000) * EMISYON_FAKTORU_TR * (88 / 100)
   \<and> hane_emisyon (Hanehalki_step ((ornek_model 2030 20)\<lparr> karbon_fiyati := 50 \<rparr>) ornek_hane)
       \<le> hane_emisyon (Hanehalki_step (ornek_model 2030 20) ornek_hane)
   \<and> hane_emisyon (Hanehalki_step ((ornek_model 2030 20)\<lparr> karbon_fiyati := 0 \<rparr>) ornek_hane) / 2
       \<le> hane_emisyon (Hanehalki_step (ornek_model 2030 20) ornek_hane)"
proof -
  have a: "hane_durum ornek_hane = Aktif \<and> 0 < tuketim ornek_hane \<and> elastikiyet ornek_hane < 0
   \<and> 0 < karbon_fiyati (ornek_model 2030 20) \<and> karbon_fiyati (ornek_model 2030 20) < 50"
    by (simp add: ornek_hane_alanlar ornek_model_def)
  have c: "max (1 / 2) (1 + elastikiyet ornek_hane * (karbon_fiyati (ornek_model 2030 20) / 100))
      = 88 / 100"
    by (simp add: ornek_hane_alanlar ornek_model_def)
  from hane_emisyonu [of ornek_hane "ornek_model 2030 20" 50] a
  have "hane_emisyon (Hanehalki_step (ornek_model 2030 20) ornek_hane)
       = (tuketim ornek_hane / 1000) * EMISYON_FAKTORU_TR
         * max (1 / 2) (1 + elastikiyet ornek_hane * (karbon_fiyati (ornek_model 2030 20) / 100))"
    and d: "hane_emisyon (Hanehalki_step ((ornek_model 2030 20)\<lparr> karbon_fiyati := 50 \<rparr>) ornek_hane)
       \<le> hane_emisyon (Hanehalki_step (ornek_model 2030 20) ornek_hane)"
       "hane_emisyon (Hanehalki_step ((ornek_model 2030 20)\<lparr> karbon_fiyati := 0 \<rparr>) ornek_hane) / 2
       \<le> hane_emisyon (Hanehalki_step (ornek_model 2030 20) ornek_hane)"
    by blast+
  then have e: "hane_emisyon (Hanehalki_step (ornek_model 2030 20) ornek_hane)
       = (2000 / 1000) * EMISYON_FAKTORU_TR * (88 / 100)"
    unfolding c by (simp add: ornek_hane_alanlar)
  from a d e show ?thesis by blast
qed

section \<open>Facilities built by the constructors\<close>

text \<open>
  Every built-in profile outside the subsidy class starts its catalog with a measure of
  negative marginal cost. Such a measure costs nothing and saves money as soon as the
  price and the emission are positive, so the decision procedure invests before it
  reaches the closure check: a facility built by the constructors never closes.
\<close>

lemma karar_ver_kapat:
  "fst (karar_ver m f p) = kapat \<Longrightarrow>
     duyarlilik f \<noteq> Tesvik \<and> \<not> ceza_durumu f
     \<and> 0 < net_emisyon f \<and> maliyet_limit f < net_emisyon f * p"
  by (auto simp add: karar_ver_def split: if_splits prod.splits)

lemma tahsisat_hesapla_net_pozitif:
  assumes "emisyon f = baslangic_emisyon f" and "0 \<le> izin_bankasi f"
    and "0 < net_emisyon (tahsisat_hesapla m f)"
  shows "0 < emisyon f"
  using assms by (auto simp add: tahsisat_hesapla_def Let_def split: if_splits)

lemma spec_npv_bedelsiz:
  assumes "mac ol \<le> 0" and "0 < potansiyel ol" and "0 < e" and "0 < p"
  shows "0 < spec_npv e p ol"
proof -
  have "0 < (\<Sum>t = 1..10::nat. (potansiyel ol * e * p) / (1 + 8 / 100) ^ t)"
    using assms by (intro sum_pos) simp_all
  then show ?thesis
    using assms(1) by (simp add: spec_npv_def Let_def)
qed

lemma karar_ver_kapatmaz:
  assumes "emisyon f = baslangic_emisyon f" and "0 \<le> izin_bankasi f"
    and "0 \<le> maliyet_limit f"
    and "duyarlilik f = Tesvik
         \<or> (\<exists>x \<in> set (mac_onlemler (profil f)). mac (snd x) \<le> 0 \<and> 0 < potansiyel (snd x))"
  shows "fst (karar_ver m (tahsisat_hesapla m f) p) \<noteq> kapat"
proof
  let ?g = "tahsisat_hesapla m f"
  assume k: "fst (karar_ver m ?g p) = kapat"
  from karar_ver_kapat [OF k]
  have c: "duyarlilik f \<noteq> Tesvik" "\<not> ceza_durumu f" "0 < net_emisyon ?g"
    "maliyet_limit f < net_emisyon ?g * p"
    by simp_all
  have e: "0 < emisyon f"
    using assms(1) assms(2) c(3) by (rule tahsisat_hesapla_net_pozitif)
  have "0 < net_emisyon ?g * p"
    using assms(3) c(4) by simp
  then have p: "0 < p"
    using c(3) by (simp add: zero_less_mult_iff)
  from assms(4) c(1) obtain x where
    x: "x \<in> set (mac_onlemler (profil f))" "mac (snd x) \<le> 0" "0 < potansiyel (snd x)"
    by blast
  have "0 < npv_hesapla (emisyon f) p (snd x)"
    using spec_npv_bedelsiz [OF x(2) x(3) e p] by (simp add: npv_hesapla_isaret)
  then have "\<exists>x \<in> set (mac_onlemler (profil ?g)).
      mac (snd x) < p \<and> npv_hesapla (emisyon ?g) p (snd x) > 0"
    using x p by force
  from karar_ver_yatirim [of ?g p m, OF _ _ this] c(1) c(2)
  have "fst (karar_ver m ?g p) = yatirim"
    by auto
  with k show False by simp
qed

lemma yerlesik_profiller:
  "0 \<le> profil_maliyet_limit (profil_getir s)"
  "profil_duyarlilik (profil_getir s) = Tesvik
   \<or> (\<exists>x \<in> set (mac_onlemler (profil_getir s)). mac (snd x) \<le> 0 \<and> 0 < potansiyel (snd x))"
  by (simp_all add: profil_getir_def SEKTOR_PROFILLERI_def Enerji_profili_def
      Sanayi_profili_def Tarim_profili_def)

lemma adim_parcalari_sabitler [simp]:
  "baslangic_emisyon (tahsisat_hesapla m f) = baslangic_emisyon f"
  "baslangic_emisyon (snd (karar_ver m f p)) = baslangic_emisyon f"
  "maliyet_limit (snd (karar_ver m f p)) = maliyet_limit f"
  "baslangic_emisyon (yatirim_baslat f p) = baslangic_emisyon f"
  "maliyet_limit (yatirim_baslat f p) = maliyet_limit f"
  "baslangic_emisyon (yatirim_ilerlet f) = baslangic_emisyon f"
  "maliyet_limit (yatirim_ilerlet f) = maliyet_limit f"
  "maliyet_limit (snd (MRV_denetle mrv f r1 r2 u)) = maliyet_limit f"
  "baslangic_emisyon (snd (MRV_denetle mrv f r1 r2 u)) = baslangic_emisyon f"
  "kalan_yatirim_suresi (snd (MRV_denetle mrv f r1 r2 u)) = kalan_yatirim_suresi f"
  by (simp_all add: tahsisat_hesapla_def karar_ver_def yatirim_baslat_def yatirim_ilerlet_def
      MRV_denetle_def Let_def split: prod.splits option.splits)

text \<open>What holds of a facility at every point of its life.\<close>

lemma EndustriyelTesis_step_degismez:
  assumes "durum f \<noteq> Kapali" and "0 \<le> izin_bankasi f"
    and "durum f = Aktif \<longrightarrow> emisyon f = baslangic_emisyon f \<and> \<not> kalan_yatirim_suresi f > 0"
    and "0 \<le> maliyet_limit f"
    and "duyarlilik f = Tesvik
         \<or> (\<exists>x \<in> set (mac_onlemler (profil f)). mac (snd x) \<le> 0 \<and> 0 < potansiyel (snd x))"
  shows "durum (EndustriyelTesis_step m f) \<noteq> Kapali"
    and "0 \<le> izin_bankasi (EndustriyelTesis_step m f)"
    and "durum (EndustriyelTesis_step m f) = Aktif \<longrightarrow>
           emisyon (EndustriyelTesis_step m f) = baslangic_emisyon (EndustriyelTesis_step m f)
           \<and> \<not> kalan_yatirim_suresi (EndustriyelTesis_step m f) > 0"
    and "maliyet_limit (EndustriyelTesis_step m f) = maliyet_limit f"
proof -
  let ?g = "tahsisat_hesapla m f"
  let ?p = "efektif_fiyat_hesapla m f"
  show "0 \<le> izin_bankasi (EndustriyelTesis_step m f)"
    using assms(1) assms(2) tahsisat_hesapla_negatif_degil [of f m]
    by (simp add: EndustriyelTesis_step_defter)
  show "maliyet_limit (EndustriyelTesis_step m f) = maliyet_limit f"
    by (simp add: EndustriyelTesis_step_acik split: karar_t.splits)
  show "durum (EndustriyelTesis_step m f) \<noteq> Kapali"
  proof (cases "durum f = Aktif")
    case True
    then have "fst (karar_ver m ?g ?p) \<noteq> kapat"
      using assms by (intro karar_ver_kapatmaz) simp_all
    then show ?thesis
      using assms(1) EndustriyelTesis_step_kapanis(1) [of f m] by blast
  next
    case False
    then show ?thesis
      using assms(1) EndustriyelTesis_step_kapanis(1) [of f m] by blast
  qed
  show "durum (EndustriyelTesis_step m f) = Aktif \<longrightarrow>
           emisyon (EndustriyelTesis_step m f) = baslangic_emisyon (EndustriyelTesis_step m f)
           \<and> \<not> kalan_yatirim_suresi (EndustriyelTesis_step m f) > 0"
    using assms(1) assms(3)
    by (auto simp add: EndustriyelTesis_step_acik yatirim_ilerlet_durum
        split: karar_t.splits if_splits)
qed

lemma olay_uygula_degismez:
  assumes "durum f \<noteq> Kapali \<and> 0 \<le> izin_bankasi f
     \<and> (durum f = Aktif \<longrightarrow> emisyon f = baslangic_emisyon f \<and> \<not> kalan_yatirim_suresi f > 0)
     \<and> 0 \<le> maliyet_limit f
     \<and> (duyarlilik f = Tesvik
         \<or> (\<exists>x \<in> set (mac_onlemler (profil f)). mac (snd x) \<le> 0 \<and> 0 < potansiyel (snd x)))"
  shows "durum (olay_uygula f e) \<noteq> Kapali \<and> 0 \<le> izin_bankasi (olay_uygula f e)
     \<and> (durum (olay_uygula f e) = Aktif \<longrightarrow>
           emisyon (olay_uygula f e) = baslangic_emisyon (olay_uygula f e)
           \<and> \<not> kalan_yatirim_suresi (olay_uygula f e) > 0)
     \<and> 0 \<le> maliyet_limit (olay_uygula f e)
     \<and> (duyarlilik (olay_uygula f e) = Tesvik
         \<or> (\<exists>x \<in> set (mac_onlemler (profil (olay_uygula f e))).
               mac (snd x) \<le> 0 \<and> 0 < potansiyel (snd x)))"
proof (cases e)
  case (Denetim mrv r1 r2 u)
  with assms show ?thesis by simp
next
  case (Adim m)
  let ?h = "if ajan_tipi f = IhracatciTesis then cbam_maliyeti_hesapla m f else f"
  have s: "olay_uygula f e = EndustriyelTesis_step m ?h"
    using Adim assms by (simp add: tesis_step_acik)
  have h: "durum ?h \<noteq> Kapali" "0 \<le> izin_bankasi ?h"
    "durum ?h = Aktif \<longrightarrow> emisyon ?h = baslangic_emisyon ?h \<and> \<not> kalan_yatirim_suresi ?h > 0"
    "0 \<le> maliyet_limit ?h"
    "duyarlilik ?h = Tesvik
       \<or> (\<exists>x \<in> set (mac_onlemler (profil ?h)). mac (snd x) \<le> 0 \<and> 0 < potansiyel (snd x))"
    using assms by simp_all
  have "duyarlilik (EndustriyelTesis_step m ?h) = duyarlilik f"
    and "profil (EndustriyelTesis_step m ?h) = profil f"
    and "maliyet_limit ?h = maliyet_limit f"
    by simp_all
  then show ?thesis
    unfolding s
    using EndustriyelTesis_step_degismez [OF h, of m] assms by simp
qed

lemma yeni_tesis_kapanmaz:
  "durum (gecmis_uygula (tesis_olustur tip s c k u r) es) \<noteq> Kapali"
proof -
  let ?f0 = "tesis_olustur tip s c k u r"
  let ?P = "\<lambda>f. durum f \<noteq> Kapali \<and> 0 \<le> izin_bankasi f
     \<and> (durum f = Aktif \<longrightarrow> emisyon f = baslangic_emisyon f \<and> \<not> kalan_yatirim_suresi f > 0)
     \<and> 0 \<le> maliyet_limit f
     \<and> (duyarlilik f = Tesvik
         \<or> (\<exists>x \<in> set (mac_onlemler (profil f)). mac (snd x) \<le> 0 \<and> 0 < potansiyel (snd x)))"
  have "?P ?f0"
    using yerlesik_profiller [of s]
    by (simp add: tesis_olustur_def EndustriyelTesis_init_def IhracatciAjani_init_def Let_def
        split: tesis_tipi.splits)
  then have "?P (gecmis_uygula ?f0 es)"
    by (rule gecmis_degismez) (rule olay_uygula_degismez)
  then show ?thesis by simp
qed

end
